theory Spec2Isabelle
  imports Complex_Main "HOL-Library.Word"
begin

section \<open>Exceptions\<close>

text \<open>
  The Python exceptions that the server code can see, each carrying the text that
  \<^verbatim>\<open>str(e)\<close> gives. \<open>OtherException\<close> stands for any other subclass of
  \<^verbatim>\<open>Exception\<close> raised by a collaborator (network failure, unknown ticker,
  missing plotting backend, ...).
\<close>

datatype exn =
    ValueError string
  | IndexError string
  | TypeError string
  | KeyError string
  | OverflowError string
  | OtherException string

fun str_exn :: "exn \<Rightarrow> string" where
  "str_exn (ValueError m) = m"
| "str_exn (IndexError m) = m"
| "str_exn (TypeError m) = m"
| "str_exn (KeyError m) = m"
| "str_exn (OverflowError m) = m"
| "str_exn (OtherException m) = m"

section \<open>Date codec: \<^verbatim>\<open>parse_date\<close>\<close>

subsection \<open>The builtin \<^verbatim>\<open>int(str)\<close>\<close>

text \<open>
  Python's \<^verbatim>\<open>int\<close> on a string, base 10: surrounding whitespace is stripped, one
  optional sign follows, then decimal digits, where single underscores may stand between
  digits. Anything else raises \<^verbatim>\<open>ValueError\<close>. Strings are modelled as lists of
  8-bit characters (code points up to 255); the whitespace of that range is listed.
\<close>

definition is_digit :: "char \<Rightarrow> bool" where
  "is_digit c = (c \<in> set ''0123456789'')"

definition digit_val :: "char \<Rightarrow> nat" where
  "digit_val c = of_char c - 48"

definition is_space :: "char \<Rightarrow> bool" where
  "is_space c = ((of_char c :: nat) \<in> {9, 10, 11, 12, 13, 32, 133, 160})"

definition strip :: "string \<Rightarrow> string" where
  "strip s = rev (dropWhile is_space (rev (dropWhile is_space s)))"

fun parse_digits :: "nat \<Rightarrow> string \<Rightarrow> nat option" where
  "parse_digits acc [] = Some acc"
| "parse_digits acc (c # cs) =
     (if is_digit c then parse_digits (acc * 10 + digit_val c) cs
      else if c = CHR ''_'' then
        (case cs of
           [] \<Rightarrow> None
         | d # ds \<Rightarrow> if is_digit d then parse_digits (acc * 10 + digit_val d) ds else None)
      else None)"

definition int_literal_error :: exn where
  "int_literal_error = ValueError ''invalid literal for int() with base 10''"

definition unsigned_literal :: "string \<Rightarrow> exn + nat" where
  "unsigned_literal s =
     (case s of
        [] \<Rightarrow> Inl int_literal_error
      | c # cs \<Rightarrow>
          if is_digit c then
            (case parse_digits (digit_val c) cs of
               None \<Rightarrow> Inl int_literal_error
             | Some n \<Rightarrow> Inr n)
          else Inl int_literal_error)"

definition py_int :: "string \<Rightarrow> exn + int" where
  "py_int s =
     (case strip s of
        [] \<Rightarrow> Inl int_literal_error
      | c # cs \<Rightarrow>
          if c = CHR ''-'' then
            (case unsigned_literal cs of Inl e \<Rightarrow> Inl e | Inr n \<Rightarrow> Inr (- int n))
          else if c = CHR ''+'' then
            (case unsigned_literal cs of Inl e \<Rightarrow> Inl e | Inr n \<Rightarrow> Inr (int n))
          else
            (case unsigned_literal (c # cs) of Inl e \<Rightarrow> Inl e | Inr n \<Rightarrow> Inr (int n)))"

subsection \<open>The constructor \<^verbatim>\<open>datetime(year, month, day)\<close> and \<^verbatim>\<open>strftime\<close>\<close>

text \<open>
  The constructor converts each argument to a C \<^verbatim>\<open>int\<close> (a value that does not
  fit raises \<^verbatim>\<open>OverflowError\<close>, with one text when it still fits a C
  \<^verbatim>\<open>long\<close> and another when it does not), then checks the year against
  \<^verbatim>\<open>MINYEAR = 1\<close> and \<^verbatim>\<open>MAXYEAR = 9999\<close>, the month against 1..12 and the
  day against the length of the month; each failed check raises \<^verbatim>\<open>ValueError\<close>.
\<close>

record datetime =
  dt_year :: nat
  dt_month :: nat
  dt_day :: nat

definition is_leap :: "nat \<Rightarrow> bool" where
  "is_leap y = (y mod 4 = 0 \<and> (y mod 100 \<noteq> 0 \<or> y mod 400 = 0))"

definition days_in_month :: "nat \<Rightarrow> nat \<Rightarrow> nat" where
  "days_in_month y m =
     (if m = 2 then (if is_leap y then 29 else 28)
      else if m \<in> {4, 6, 9, 11} then 30
      else 31)"

definition fits_c_int :: "int \<Rightarrow> bool" where
  "fits_c_int i = (- 2147483648 \<le> i \<and> i \<le> 2147483647)"

definition fits_c_long :: "int \<Rightarrow> bool" where
  "fits_c_long i = (- 9223372036854775808 \<le> i \<and> i \<le> 9223372036854775807)"

definition c_int_overflow :: "int \<Rightarrow> exn" where
  "c_int_overflow i =
     OverflowError
       (if \<not> fits_c_long i then ''Python int too large to convert to C long''
        else if 0 < i then ''signed integer is greater than maximum''
        else ''signed integer is less than minimum'')"

definition mk_datetime :: "int \<Rightarrow> int \<Rightarrow> int \<Rightarrow> exn + datetime" where
  "mk_datetime y m d =
     (if \<not> fits_c_int y then Inl (c_int_overflow y)
      else if \<not> fits_c_int m then Inl (c_int_overflow m)
      else if \<not> fits_c_int d then Inl (c_int_overflow d)
      else if y < 1 \<or> 9999 < y then Inl (ValueError ''year is out of range'')
      else if m < 1 \<or> 12 < m then Inl (ValueError ''month must be in 1..12'')
      else if d < 1 \<or> int (days_in_month (nat y) (nat m)) < d
        then Inl (ValueError ''day is out of range for month'')
      else Inr \<lparr>dt_year = nat y, dt_month = nat m, dt_day = nat d\<rparr>)"

definition digit_char :: "nat \<Rightarrow> char" where
  "digit_char n = ''0123456789'' ! (n mod 10)"

definition pad2 :: "nat \<Rightarrow> string" where
  "pad2 n = [digit_char (n div 10), digit_char n]"

fun str_nat :: "nat \<Rightarrow> string" where
  "str_nat n = (if n < 10 then [digit_char n] else str_nat (n div 10) @ [digit_char n])"

declare str_nat.simps [simp del]

text \<open>
  \<^verbatim>\<open>dt.strftime('%Y-%m-%d')\<close>: month and day take two digits; the year is printed
  by the C library, which writes it as a plain decimal number without padding, so a year
  below 1000 has fewer than four digits (year 24 gives \<^verbatim>\<open>24-01-01\<close>).
\<close>

definition strftime_ymd :: "datetime \<Rightarrow> string" where
  "strftime_ymd dt =
     str_nat (dt_year dt) @ ''-'' @ pad2 (dt_month dt) @ ''-'' @ pad2 (dt_day dt)"

subsection \<open>\<^verbatim>\<open>parse_date\<close>\<close>

text \<open>
  The body of the \<^verbatim>\<open>try\<close>: the slices \<^verbatim>\<open>date_str[:2]\<close>,
  \<^verbatim>\<open>date_str[2:4]\<close> and \<^verbatim>\<open>date_str[4:]\<close> never raise (a slice of a short
  string is just shorter); the arguments are evaluated left to right.
\<close>

definition parse_date_try :: "string \<Rightarrow> exn + string" where
  "parse_date_try date_str =
     (let month = take 2 date_str;
          day = take 2 (drop 2 date_str);
          year = drop 4 date_str
      in case py_int year of
           Inl e \<Rightarrow> Inl e
         | Inr y \<Rightarrow>
        (case py_int month of
           Inl e \<Rightarrow> Inl e
         | Inr m \<Rightarrow>
        (case py_int day of
           Inl e \<Rightarrow> Inl e
         | Inr d \<Rightarrow>
        (case mk_datetime y m d of
           Inl e \<Rightarrow> Inl e
         | Inr dt \<Rightarrow> Inr (strftime_ymd dt)))))"

definition invalid_date_format :: "string \<Rightarrow> exn" where
  "invalid_date_format date_str =
     ValueError (''Invalid date format: '' @ date_str @ ''. Expected mmddyyyy format.'')"

text \<open>
  \<^verbatim>\<open>except (ValueError, IndexError)\<close> turns these two kinds into the format error;
  every other exception leaves \<^verbatim>\<open>parse_date\<close> as it is.
\<close>

definition parse_date :: "string \<Rightarrow> exn + string" where
  "parse_date date_str =
     (case parse_date_try date_str of
        Inr r \<Rightarrow> Inr r
      | Inl (ValueError m) \<Rightarrow> Inl (invalid_date_format date_str)
      | Inl (IndexError m) \<Rightarrow> Inl (invalid_date_format date_str)
      | Inl e \<Rightarrow> Inl e)"

section \<open>Values\<close>

subsection \<open>Floating-point numbers\<close>

text \<open>
  The numbers of the price table are \<^verbatim>\<open>numpy.float64\<close>, IEEE binary64. A finite
  float is modelled by the rational number it denotes, next to the two infinities and
  not-a-number; the sign of zero is not kept. Every arithmetic operation gives the
  exact result rounded to the nearest float, a tie going to the even significand, as
  IEEE prescribes; dividing by zero does not raise in numpy, it yields an infinity or
  not-a-number.
\<close>

datatype fval = Fin rat | PInf | NInf | NaN

fun is_finite :: "fval \<Rightarrow> bool" where
  "is_finite (Fin x) = True"
| "is_finite v = False"

text \<open>The integer nearest to a rational, a tie going to the even neighbour.\<close>

definition rint :: "rat \<Rightarrow> int" where
  "rint x =
     (let f = \<lfloor>x\<rfloor>; r = x - of_int f
      in if r < 1 / 2 then f
         else if 1 / 2 < r then f + 1
         else if even f then f else f + 1)"

definition pow2 :: "int \<Rightarrow> rat" where
  "pow2 k = (if 0 \<le> k then 2 ^ nat k else 1 / 2 ^ nat (- k))"

text \<open>
  \<open>nbits n\<close> is the number of binary digits of \<open>n\<close>; \<open>ilog2 a\<close>, for positive \<open>a\<close>, is
  the exponent \<open>k\<close> with \<open>2 ^ k \<le> a < 2 ^ (k + 1)\<close>.
\<close>

fun nbits :: "nat \<Rightarrow> nat" where
  "nbits n = (if n = 0 then 0 else Suc (nbits (n div 2)))"

declare nbits.simps [simp del]

definition ilog2 :: "rat \<Rightarrow> int" where
  "ilog2 a =
     (if 1 \<le> a then int (nbits (nat \<lfloor>a\<rfloor>)) - 1
      else (let j = int (nbits (nat \<lfloor>1 / a\<rfloor>)) - 1
            in if a = pow2 (- j) then - j else - j - 1))"

text \<open>
  Rounding to binary64: the significand has 53 bits, so the spacing of the floats around
  \<open>x\<close> is \<open>2 ^ (k - 52)\<close> for the exponent \<open>k\<close> of \<open>x\<close>, and \<open>2 ^ - 1074\<close> below the
  smallest normal number \<open>2 ^ - 1022\<close>; \<open>round_mag\<close> rounds a positive number to
  that grid. A result of \<open>2 ^ 1024\<close> or more is an infinity.
\<close>

definition round_mag :: "rat \<Rightarrow> rat" where
  "round_mag a =
     (let e = max (ilog2 a) (- 1022) - 52
      in of_int (rint (a / pow2 e)) * pow2 e)"

definition float64 :: "rat \<Rightarrow> fval" where
  "float64 x =
     (if x = 0 then Fin 0
      else let y = round_mag \<bar>x\<bar>
           in if pow2 1024 \<le> y then (if 0 < x then PInf else NInf)
              else Fin (if 0 < x then y else - y))"

fun fneg :: "fval \<Rightarrow> fval" where
  "fneg (Fin x) = Fin (- x)"
| "fneg PInf = NInf"
| "fneg NInf = PInf"
| "fneg NaN = NaN"

fun fabs :: "fval \<Rightarrow> fval" where
  "fabs (Fin x) = Fin \<bar>x\<bar>"
| "fabs PInf = PInf"
| "fabs NInf = PInf"
| "fabs NaN = NaN"

fun fadd :: "fval \<Rightarrow> fval \<Rightarrow> fval" where
  "fadd NaN b = NaN"
| "fadd a NaN = NaN"
| "fadd (Fin x) (Fin y) = float64 (x + y)"
| "fadd (Fin x) b = b"
| "fadd PInf NInf = NaN"
| "fadd NInf PInf = NaN"
| "fadd a b = a"

fun fsub :: "fval \<Rightarrow> fval \<Rightarrow> fval" where
  "fsub NaN b = NaN"
| "fsub a NaN = NaN"
| "fsub (Fin x) (Fin y) = float64 (x - y)"
| "fsub (Fin x) PInf = NInf"
| "fsub (Fin x) NInf = PInf"
| "fsub PInf PInf = NaN"
| "fsub PInf b = PInf"
| "fsub NInf NInf = NaN"
| "fsub NInf b = NInf"

definition inf_of_sign :: "rat \<Rightarrow> fval" where
  "inf_of_sign x = (if x = 0 then NaN else if 0 < x then PInf else NInf)"

fun fmul :: "fval \<Rightarrow> fval \<Rightarrow> fval" where
  "fmul NaN b = NaN"
| "fmul a NaN = NaN"
| "fmul (Fin x) (Fin y) = float64 (x * y)"
| "fmul (Fin x) PInf = inf_of_sign x"
| "fmul (Fin x) NInf = inf_of_sign (- x)"
| "fmul PInf (Fin y) = inf_of_sign y"
| "fmul NInf (Fin y) = inf_of_sign (- y)"
| "fmul PInf PInf = PInf"
| "fmul PInf NInf = NInf"
| "fmul NInf PInf = NInf"
| "fmul NInf NInf = PInf"

fun fdiv :: "fval \<Rightarrow> fval \<Rightarrow> fval" where
  "fdiv NaN b = NaN"
| "fdiv a NaN = NaN"
| "fdiv (Fin x) (Fin y) = (if y = 0 then inf_of_sign x else float64 (x / y))"
| "fdiv (Fin x) b = Fin 0"
| "fdiv PInf (Fin y) = (if 0 \<le> y then PInf else NInf)"
| "fdiv NInf (Fin y) = (if 0 \<le> y then NInf else PInf)"
| "fdiv a b = NaN"

fun fgt :: "fval \<Rightarrow> fval \<Rightarrow> bool" where
  "fgt NaN b = False"
| "fgt a NaN = False"
| "fgt (Fin x) (Fin y) = (y < x)"
| "fgt (Fin x) PInf = False"
| "fgt (Fin x) NInf = True"
| "fgt PInf PInf = False"
| "fgt PInf b = True"
| "fgt NInf b = False"

text \<open>
  \<^verbatim>\<open>round(x, 2)\<close> on a \<^verbatim>\<open>numpy.float64\<close> is numpy's rounding, not the one of the
  builtin \<^verbatim>\<open>float\<close>: the float is multiplied by 100, brought to the nearest integer
  (\<^verbatim>\<open>rint\<close>, a tie going to the even one) and divided by 100, each step in float
  arithmetic. The result is the float nearest to a number with two decimals; infinities
  and not-a-number pass through.
\<close>

fun frint :: "fval \<Rightarrow> fval" where
  "frint (Fin x) = Fin (of_int (rint x))"
| "frint v = v"

definition fround2 :: "fval \<Rightarrow> fval" where
  "fround2 v = fdiv (frint (fmul v (Fin 100))) (Fin 100)"

text \<open>\<^verbatim>\<open>int(x)\<close> on a float truncates toward zero and rejects the special values.\<close>

definition trunc_rat :: "rat \<Rightarrow> int" where
  "trunc_rat x = (if 0 \<le> x then \<lfloor>x\<rfloor> else \<lceil>x\<rceil>)"

fun int_of_float :: "fval \<Rightarrow> exn + int" where
  "int_of_float (Fin x) = Inr (trunc_rat x)"
| "int_of_float NaN = Inl (ValueError ''cannot convert float NaN to integer'')"
| "int_of_float v = Inl (OverflowError ''cannot convert float infinity to integer'')"

text \<open>The conversion of a Python integer to a float raises when the integer is too large.\<close>

definition float_of_int :: "int \<Rightarrow> exn + fval" where
  "float_of_int i =
     (case float64 (of_int i) of
        Fin x \<Rightarrow> Inr (Fin x)
      | v \<Rightarrow> Inl (OverflowError ''int too large to convert to float''))"

subsection \<open>Dictionaries\<close>

text \<open>
  The results of the tools are dictionaries with string keys, kept as association lists
  in insertion order. The values are the ones the tools build: strings, integers, floats
  and nested dictionaries.
\<close>

datatype pyval =
    PStr string
  | PInt int
  | PFloat fval
  | PDict "(string \<times> pyval) list"

type_synonym pydict = "(string \<times> pyval) list"

definition has_key :: "pydict \<Rightarrow> string \<Rightarrow> bool" where
  "has_key d k = (map_of d k \<noteq> None)"

definition dict_get :: "pydict \<Rightarrow> string \<Rightarrow> pyval \<Rightarrow> pyval" where
  "dict_get d k dflt = (case map_of d k of None \<Rightarrow> dflt | Some v \<Rightarrow> v)"

definition getitem :: "pydict \<Rightarrow> string \<Rightarrow> exn + pyval" where
  "getitem d k = (case map_of d k of None \<Rightarrow> Inl (KeyError k) | Some v \<Rightarrow> Inr v)"

fun setitem :: "pydict \<Rightarrow> string \<Rightarrow> pyval \<Rightarrow> pydict" where
  "setitem [] k v = [(k, v)]"
| "setitem ((k', v') # d) k v = (if k' = k then (k, v) # d else (k', v') # setitem d k v)"

text \<open>
  The operators the comparison applies to values read back from a dictionary. They are
  defined on numbers (an integer and a float are compared by their exact values); on the
  other values of the model they raise \<^verbatim>\<open>TypeError\<close>.
\<close>

fun num_of :: "pyval \<Rightarrow> fval option" where
  "num_of (PFloat x) = Some x"
| "num_of (PInt i) = Some (Fin (of_int i))"
| "num_of v = None"

definition operand_error :: exn where
  "operand_error = TypeError ''unsupported operand type(s)''"

definition py_gt :: "pyval \<Rightarrow> pyval \<Rightarrow> exn + bool" where
  "py_gt a b =
     (case (num_of a, num_of b) of
        (Some x, Some y) \<Rightarrow> Inr (fgt x y)
      | _ \<Rightarrow> Inl operand_error)"

fun py_sub :: "pyval \<Rightarrow> pyval \<Rightarrow> exn + pyval" where
  "py_sub (PInt i) (PInt j) = Inr (PInt (i - j))"
| "py_sub (PFloat x) (PFloat y) = Inr (PFloat (fsub x y))"
| "py_sub (PInt i) (PFloat y) =
     (case float_of_int i of Inl e \<Rightarrow> Inl e | Inr x \<Rightarrow> Inr (PFloat (fsub x y)))"
| "py_sub (PFloat x) (PInt j) =
     (case float_of_int j of Inl e \<Rightarrow> Inl e | Inr y \<Rightarrow> Inr (PFloat (fsub x y)))"
| "py_sub a b = Inl operand_error"

fun py_round2 :: "pyval \<Rightarrow> exn + pyval" where
  "py_round2 (PInt i) = Inr (PInt i)"
| "py_round2 (PFloat x) = Inr (PFloat (fround2 x))"
| "py_round2 v = Inl operand_error"

subsection \<open>Sequencing of statements that may raise\<close>

definition bind_exn :: "exn + 'a \<Rightarrow> ('a \<Rightarrow> exn + 'b) \<Rightarrow> exn + 'b" where
  "bind_exn r f = (case r of Inl e \<Rightarrow> Inl e | Inr v \<Rightarrow> f v)"

section \<open>The price table\<close>

text \<open>
  One row of the table that \<^verbatim>\<open>stock.history\<close> returns, with the columns the server
  reads: four columns of floats, whose entries are finite numbers, and the volume, a
  column of 64-bit signed integers. The rows are in date order.
\<close>

record bar =
  Open :: rat
  High :: rat
  Low :: rat
  Close :: rat
  Volume :: "64 word"

type_synonym series = "bar list"

text \<open>\<^verbatim>\<open>.iloc[0]\<close> and \<^verbatim>\<open>.iloc[-1]\<close> raise on a column without rows.\<close>

definition iloc_first :: "'a list \<Rightarrow> exn + 'a" where
  "iloc_first xs =
     (case xs of
        [] \<Rightarrow> Inl (IndexError ''single positional indexer is out-of-bounds'')
      | x # _ \<Rightarrow> Inr x)"

definition iloc_last :: "'a list \<Rightarrow> exn + 'a" where
  "iloc_last xs =
     (if xs = [] then Inl (IndexError ''single positional indexer is out-of-bounds'')
      else Inr (last xs))"

text \<open>
  The reductions of a column; on a column without rows they give not-a-number. Maximum
  and minimum select an entry. The mean is the sum of the column divided by the number
  of rows, in float arithmetic; the volumes are converted to floats first. The sum adds
  the rows in order. (numpy groups the additions of a long column in pairs; the grouping
  does not matter while the partial sums are exact, as they are for volumes whose total
  stays below \<open>2 ^ 53\<close>.)
\<close>

fun col_max :: "rat list \<Rightarrow> fval" where
  "col_max [] = NaN"
| "col_max (x # xs) = Fin (fold max xs x)"

fun col_min :: "rat list \<Rightarrow> fval" where
  "col_min [] = NaN"
| "col_min (x # xs) = Fin (fold min xs x)"

definition col_sum :: "fval list \<Rightarrow> fval" where
  "col_sum xs = foldl fadd (Fin 0) xs"

definition col_mean :: "fval list \<Rightarrow> fval" where
  "col_mean xs = (if xs = [] then NaN else fdiv (col_sum xs) (Fin (of_nat (length xs))))"

definition volume_floats :: "series \<Rightarrow> fval list" where
  "volume_floats data = map (\<lambda>r. float64 (of_int (sint (Volume r)))) data"

section \<open>The tools\<close>

text \<open>
  The collaborators are parameters. \<open>history ticker start end\<close> stands for
  \<^verbatim>\<open>yf.Ticker(ticker).history(start=start, end=end)\<close>: it returns the table or
  raises. The tools are \<^verbatim>\<open>async\<close> functions without a suspension point of their
  own other than the nested tool call; they are modelled as plain functions. Each tool is
  a \<^verbatim>\<open>try\<close> body, which may raise, under a handler \<^verbatim>\<open>except Exception\<close>
  that turns the exception into the returned value.
\<close>

type_synonym history_fn = "string \<Rightarrow> string \<Rightarrow> string \<Rightarrow> exn + series"

subsection \<open>\<^verbatim>\<open>get_stock_data\<close>\<close>

definition no_data_message :: "string \<Rightarrow> string" where
  "no_data_message ticker =
     ''No data found for ticker '' @ ticker @ '' in the specified date range''"

definition percentage_change :: "rat \<Rightarrow> rat \<Rightarrow> fval" where
  "percentage_change closing opening =
     fmul (fsub (fdiv (Fin closing) (Fin opening)) (Fin 1)) (Fin 100)"

definition stats :: "string \<Rightarrow> string \<Rightarrow> string \<Rightarrow> string \<Rightarrow> series \<Rightarrow> exn + pydict" where
  "stats ticker name start_formatted end_formatted data =
     bind_exn (iloc_first (map Open data)) (\<lambda>opening.
     bind_exn (iloc_last (map Close data)) (\<lambda>closing.
     bind_exn (int_of_float (col_mean (volume_floats data))) (\<lambda>average_volume.
       Inr [(''ticker'', PStr ticker),
            (''name'', PStr name),
            (''start_date'', PStr start_formatted),
            (''end_date'', PStr end_formatted),
            (''data_points'', PInt (int (length data))),
            (''opening_price'', PFloat (fround2 (Fin opening))),
            (''closing_price'', PFloat (fround2 (Fin closing))),
            (''highest_price'', PFloat (fround2 (col_max (map High data)))),
            (''lowest_price'', PFloat (fround2 (col_min (map Low data)))),
            (''average_price'', PFloat (fround2 (col_mean (map (\<lambda>r. Fin (Close r)) data)))),
            (''price_change'', PFloat (fround2 (fsub (Fin closing) (Fin opening)))),
            (''percentage_change'', PFloat (fround2 (percentage_change closing opening))),
            (''average_volume'', PInt average_volume)])))"

definition get_stock_data_try ::
  "history_fn \<Rightarrow> string \<Rightarrow> string \<Rightarrow> string \<Rightarrow> string \<Rightarrow> exn + pydict" where
  "get_stock_data_try history ticker name start_date end_date =
     bind_exn (parse_date start_date) (\<lambda>start_formatted.
     bind_exn (parse_date end_date) (\<lambda>end_formatted.
     bind_exn (history ticker start_formatted end_formatted) (\<lambda>data.
       if data = [] then
         Inr [(''error'', PStr (no_data_message ticker)),
              (''ticker'', PStr ticker),
              (''name'', PStr name)]
       else stats ticker name start_formatted end_formatted data)))"

definition get_stock_data ::
  "history_fn \<Rightarrow> string \<Rightarrow> string \<Rightarrow> string \<Rightarrow> string \<Rightarrow> pydict" where
  "get_stock_data history ticker name start_date end_date =
     (case get_stock_data_try history ticker name start_date end_date of
        Inr result \<Rightarrow> result
      | Inl e \<Rightarrow>
          [(''error'', PStr (''Failed to fetch data: '' @ str_exn e)),
           (''ticker'', PStr ticker),
           (''name'', PStr name)])"

subsection \<open>\<^verbatim>\<open>compare_stocks\<close>\<close>

definition leg_summary :: "string \<Rightarrow> pydict \<Rightarrow> exn + pyval" where
  "leg_summary ticker stock_data =
     bind_exn (getitem stock_data ''percentage_change'') (\<lambda>pc.
     bind_exn (getitem stock_data ''price_change'') (\<lambda>ch.
     bind_exn (getitem stock_data ''closing_price'') (\<lambda>final.
       Inr (PDict [(''ticker'', PStr ticker),
                   (''percentage_change'', pc),
                   (''price_change'', ch),
                   (''final_price'', final)]))))"

definition determine_winner ::
  "pydict \<Rightarrow> string \<Rightarrow> string \<Rightarrow> pydict \<Rightarrow> pydict \<Rightarrow> exn + pydict" where
  "determine_winner comparison ticker1 ticker2 stock1_data stock2_data =
     bind_exn (getitem stock1_data ''percentage_change'') (\<lambda>pc1.
     bind_exn (getitem stock2_data ''percentage_change'') (\<lambda>pc2.
     bind_exn (py_gt pc1 pc2) (\<lambda>greater.
       if greater then
         bind_exn (py_sub pc1 pc2) (\<lambda>diff.
         bind_exn (py_round2 diff) (\<lambda>rounded.
           Inr (setitem (setitem comparison ''better_performer'' (PStr ticker1))
                  ''performance_difference'' rounded)))
       else
         bind_exn (py_sub pc2 pc1) (\<lambda>diff.
         bind_exn (py_round2 diff) (\<lambda>rounded.
           Inr (setitem (setitem comparison ''better_performer'' (PStr ticker2))
                  ''performance_difference'' rounded))))))"

definition compare_stocks_try ::
  "history_fn \<Rightarrow> string \<Rightarrow> string \<Rightarrow> string \<Rightarrow> string \<Rightarrow> exn + pydict" where
  "compare_stocks_try history ticker1 ticker2 start_date end_date =
     (let stock1_data = get_stock_data history ticker1 ticker1 start_date end_date;
          stock2_data = get_stock_data history ticker2 ticker2 start_date end_date
      in if has_key stock1_data ''error'' \<or> has_key stock2_data ''error'' then
           Inr [(''error'', PStr ''Failed to get data for one or both stocks''),
                (''stock1_error'', dict_get stock1_data ''error'' (PStr ''No error'')),
                (''stock2_error'', dict_get stock2_data ''error'' (PStr ''No error''))]
         else
           bind_exn (parse_date start_date) (\<lambda>s.
           bind_exn (parse_date end_date) (\<lambda>e.
           bind_exn (leg_summary ticker1 stock1_data) (\<lambda>stock1.
           bind_exn (leg_summary ticker2 stock2_data) (\<lambda>stock2.
             determine_winner
               [(''comparison_period'', PStr (s @ '' to '' @ e)),
                (''stock1'', stock1),
                (''stock2'', stock2)]
               ticker1 ticker2 stock1_data stock2_data)))))"

definition compare_stocks ::
  "history_fn \<Rightarrow> string \<Rightarrow> string \<Rightarrow> string \<Rightarrow> string \<Rightarrow> pydict" where
  "compare_stocks history ticker1 ticker2 start_date end_date =
     (case compare_stocks_try history ticker1 ticker2 start_date end_date of
        Inr result \<Rightarrow> result
      | Inl e \<Rightarrow> [(''error'', PStr (''Comparison failed: '' @ str_exn e))])"

subsection \<open>\<^verbatim>\<open>plot_stock_price\<close>\<close>

text \<open>
  \<^verbatim>\<open>base64.b64encode\<close> with the standard alphabet: three bytes become four
  characters of six bits each, and a last group of one or two bytes is padded with
  \<^verbatim>\<open>=\<close>.
\<close>

definition b64_alphabet :: string where
  "b64_alphabet = ''ABCDEFGHIJKLMNOPQRSTUVWXYZabcdefghijklmnopqrstuvwxyz0123456789+/''"

definition b64_char :: "nat \<Rightarrow> char" where
  "b64_char n = b64_alphabet ! n"

fun b64encode :: "8 word list \<Rightarrow> string" where
  "b64encode [] = []"
| "b64encode [a] =
     [b64_char (unat a div 4), b64_char (unat a mod 4 * 16), CHR ''='', CHR ''='']"
| "b64encode [a, b] =
     [b64_char (unat a div 4), b64_char (unat a mod 4 * 16 + unat b div 16),
      b64_char (unat b mod 16 * 4), CHR ''='']"
| "b64encode (a # b # c # rest) =
     [b64_char (unat a div 4), b64_char (unat a mod 4 * 16 + unat b div 16),
      b64_char (unat b mod 16 * 4 + unat c div 64), b64_char (unat c mod 64)]
     @ b64encode rest"

text \<open>
  What a decoder accepts as base64: groups of four characters of the alphabet, where
  only the last group may end in one or two padding characters.
\<close>

definition is_b64_char :: "char \<Rightarrow> bool" where
  "is_b64_char c = (c \<in> set b64_alphabet)"

fun valid_base64 :: "string \<Rightarrow> bool" where
  "valid_base64 [] = True"
| "valid_base64 [a, b, c, d] =
     (is_b64_char a \<and> is_b64_char b \<and>
      (is_b64_char c \<and> (is_b64_char d \<or> d = CHR ''='') \<or> c = CHR ''='' \<and> d = CHR ''=''))"
| "valid_base64 (a # b # c # d # rest) =
     (is_b64_char a \<and> is_b64_char b \<and> is_b64_char c \<and> is_b64_char d \<and> valid_base64 rest)"
| "valid_base64 s = False"

definition data_uri_prefix :: string where
  "data_uri_prefix = ''data:image/png;base64,''"

definition startswith :: "string \<Rightarrow> string \<Rightarrow> bool" where
  "startswith s p = (take (length p) s = p)"

text \<open>
  \<open>render ticker name start end data\<close> stands for the plotting block, from
  \<^verbatim>\<open>plt.figure\<close> to \<^verbatim>\<open>buffer.getvalue()\<close>: it returns the bytes of the PNG
  image or raises.
\<close>

type_synonym render_fn =
  "string \<Rightarrow> string \<Rightarrow> string \<Rightarrow> string \<Rightarrow> series \<Rightarrow> exn + 8 word list"

definition plot_stock_price_try ::
  "history_fn \<Rightarrow> render_fn \<Rightarrow> string \<Rightarrow> string \<Rightarrow> string \<Rightarrow> string \<Rightarrow> exn + string" where
  "plot_stock_price_try history render ticker name start_date end_date =
     bind_exn (parse_date start_date) (\<lambda>start_formatted.
     bind_exn (parse_date end_date) (\<lambda>end_formatted.
     bind_exn (history ticker start_formatted end_formatted) (\<lambda>data.
       if data = [] then Inr (no_data_message ticker)
       else
         bind_exn (render ticker name start_formatted end_formatted data) (\<lambda>png.
           Inr (data_uri_prefix @ b64encode png)))))"

definition plot_stock_price ::
  "history_fn \<Rightarrow> render_fn \<Rightarrow> string \<Rightarrow> string \<Rightarrow> string \<Rightarrow> string \<Rightarrow> string" where
  "plot_stock_price history render ticker name start_date end_date =
     (case plot_stock_price_try history render ticker name start_date end_date of
        Inr result \<Rightarrow> result
      | Inl e \<Rightarrow> ''Failed to create plot: '' @ str_exn e)"

subsection \<open>\<^verbatim>\<open>read_stock_resource\<close>\<close>

text \<open>
  The values of the snapshot \<^verbatim>\<open>stock.info\<close> that the text block shows. How a float
  is printed is left to two parameters: \<open>repr_float\<close> for the empty format and
  \<open>group_float\<close> for the format \<^verbatim>\<open>,\<close>.
\<close>

datatype info_val = IStr string | IInt int | IFloat fval | INone

type_synonym info_fn = "string \<Rightarrow> exn + (string \<times> info_val) list"

definition str_int :: "int \<Rightarrow> string" where
  "str_int i = (if i < 0 then CHR ''-'' # str_nat (nat (- i)) else str_nat (nat i))"

fun group_rev :: "string \<Rightarrow> string" where
  "group_rev (a # b # c # d # rest) = a # b # c # CHR '','' # group_rev (d # rest)"
| "group_rev s = s"

definition group_int :: "int \<Rightarrow> string" where
  "group_int i =
     (if i < 0 then CHR ''-'' # rev (group_rev (rev (str_nat (nat (- i)))))
      else rev (group_rev (rev (str_nat (nat i)))))"

fun format_plain :: "(fval \<Rightarrow> string) \<Rightarrow> info_val \<Rightarrow> string" where
  "format_plain repr_float (IStr s) = s"
| "format_plain repr_float (IInt i) = str_int i"
| "format_plain repr_float (IFloat x) = repr_float x"
| "format_plain repr_float INone = ''None''"

text \<open>
  The message of the \<^verbatim>\<open>ValueError\<close> that formatting a string with \<^verbatim>\<open>,\<close>
  raises; it quotes the comma and the type code \<^verbatim>\<open>s\<close> in apostrophes.
\<close>

definition apostrophe :: string where
  "apostrophe = [CHR 0x27]"

definition grouping_error_message :: string where
  "grouping_error_message =
     ''Cannot specify '' @ apostrophe @ '','' @ apostrophe @ '' with ''
       @ apostrophe @ ''s'' @ apostrophe @ ''.''"

fun format_grouped :: "(fval \<Rightarrow> string) \<Rightarrow> info_val \<Rightarrow> exn + string" where
  "format_grouped group_float (IStr s) = Inl (ValueError grouping_error_message)"
| "format_grouped group_float (IInt i) = Inr (group_int i)"
| "format_grouped group_float (IFloat x) = Inr (group_float x)"
| "format_grouped group_float INone =
     Inl (TypeError ''unsupported format string passed to NoneType.__format__'')"

definition info_get :: "(string \<times> info_val) list \<Rightarrow> string \<Rightarrow> info_val \<Rightarrow> info_val" where
  "info_get info k dflt = (case map_of info k of None \<Rightarrow> dflt | Some v \<Rightarrow> v)"

definition newline :: string where
  "newline = [CHR 0x0A]"

definition read_stock_resource_try ::
  "info_fn \<Rightarrow> (fval \<Rightarrow> string) \<Rightarrow> (fval \<Rightarrow> string) \<Rightarrow> string \<Rightarrow> exn + string" where
  "read_stock_resource_try info_of repr_float group_float ticker =
     bind_exn (info_of ticker) (\<lambda>info.
     bind_exn (format_grouped group_float (info_get info ''marketCap'' (IStr ''N/A''))) (\<lambda>cap.
       Inr (newline
          @ ''Stock Information for '' @ ticker @ '':'' @ newline
          @ ''Company Name: '' @ format_plain repr_float (info_get info ''longName'' (IStr ''N/A'')) @ newline
          @ ''Sector: '' @ format_plain repr_float (info_get info ''sector'' (IStr ''N/A'')) @ newline
          @ ''Industry: '' @ format_plain repr_float (info_get info ''industry'' (IStr ''N/A'')) @ newline
          @ ''Current Price: $'' @ format_plain repr_float (info_get info ''currentPrice'' (IStr ''N/A'')) @ newline
          @ ''Market Cap: $'' @ cap @ newline
          @ ''52 Week High: $'' @ format_plain repr_float (info_get info ''fiftyTwoWeekHigh'' (IStr ''N/A'')) @ newline
          @ ''52 Week Low: $'' @ format_plain repr_float (info_get info ''fiftyTwoWeekLow'' (IStr ''N/A'')) @ newline
          @ ''        '')))"

definition read_stock_resource ::
  "info_fn \<Rightarrow> (fval \<Rightarrow> string) \<Rightarrow> (fval \<Rightarrow> string) \<Rightarrow> string \<Rightarrow> string" where
  "read_stock_resource info_of repr_float group_float ticker =
     (case read_stock_resource_try info_of repr_float group_float ticker of
        Inr result \<Rightarrow> result
      | Inl e \<Rightarrow> ''Error fetching stock resource: '' @ str_exn e)"

section \<open>Calendar tokens\<close>

text \<open>
  The reading of a token that the specification gives: eight decimal digits, the first
  two the month, the next two the day, the last four the year, where the month is in
  1..12 and the day exists in that month of that year.
\<close>

definition decimal_value :: "string \<Rightarrow> nat" where
  "decimal_value s = foldl (\<lambda>a c. 10 * a + digit_val c) 0 s"

definition token_month :: "string \<Rightarrow> nat" where
  "token_month tok = decimal_value (take 2 tok)"

definition token_day :: "string \<Rightarrow> nat" where
  "token_day tok = decimal_value (take 2 (drop 2 tok))"

definition token_year :: "string \<Rightarrow> nat" where
  "token_year tok = decimal_value (drop 4 tok)"

definition is_calendar_token :: "string \<Rightarrow> bool" where
  "is_calendar_token tok =
     (length tok = 8 \<and> list_all is_digit tok \<and>
      1 \<le> token_month tok \<and> token_month tok \<le> 12 \<and>
      1 \<le> token_day tok \<and>
      token_day tok \<le> days_in_month (token_year tok) (token_month tok))"

section \<open>Example inputs\<close>



definition example_series :: series where
  "example_series =
     [\<lparr>Open = 100, High = 105, Low = 95, Close = 104, Volume = 1000\<rparr>,
      \<lparr>Open = 104, High = 115, Low = 101, Close = 110, Volume = 2001\<rparr>]"

definition example_history :: history_fn where
  "example_history ticker start_formatted end_formatted = Inr example_series"

text \<open>A data collaborator that finds no rows, and a table whose first open is 0.\<close>

definition empty_history :: history_fn where
  "empty_history ticker start_formatted end_formatted = Inr []"

definition zero_open_series :: series where
  "zero_open_series = [\<lparr>Open = 0, High = 5, Low = 0, Close = 5, Volume = 10\<rparr>]"

definition zero_open_history :: history_fn where
  "zero_open_history ticker start_formatted end_formatted = Inr zero_open_series"

text \<open>A plotting collaborator that raises.\<close>

definition no_render :: render_fn where
  "no_render ticker name start_formatted end_formatted data = Inl (OtherException ''no display'')"

text \<open>
  Two tickers over the same period: AAPL rises from 160 to 161, every other ticker from
  160 to 160.9921875, so that the rounded changes are 0.63 and 0.62 percent.
\<close>

definition two_ticker_history :: history_fn where
  "two_ticker_history ticker start_formatted end_formatted =
     (if ticker = ''AAPL''
      then Inr [\<lparr>Open = 160, High = 162, Low = 158, Close = 161, Volume = 500\<rparr>]
      else Inr [\<lparr>Open = 160, High = 162, Low = 158, Close = 20607 / 128, Volume = 700\<rparr>])"

text \<open>Collaborators that raise: the snapshot service, and the data service for AAPL only.\<close>

definition failing_info :: info_fn where
  "failing_info ticker = Inl (OtherException ''quote service unavailable'')"

definition failing_history :: history_fn where
  "failing_history ticker start_formatted end_formatted =
     (if ticker = ''AAPL'' then Inl (OtherException ''connection refused'')
      else Inr example_series)"


text \<open>
  The dictionary that \<open>get_stock_data\<close> builds from a non-empty table, in closed form;
  it serves to state what a successful leg looks like. The mean volume is a finite float
  for every table, so the default of \<open>average_volume\<close> is never taken.
\<close>

definition average_volume :: "series \<Rightarrow> int" where
  "average_volume data = (case col_mean (volume_floats data) of Fin m \<Rightarrow> trunc_rat m | v \<Rightarrow> 0)"

definition stats_dict :: "string \<Rightarrow> string \<Rightarrow> string \<Rightarrow> string \<Rightarrow> series \<Rightarrow> pydict" where
  "stats_dict ticker name s e data =
    [(''ticker'', PStr ticker),
     (''name'', PStr name),
     (''start_date'', PStr s),
     (''end_date'', PStr e),
     (''data_points'', PInt (int (length data))),
     (''opening_price'', PFloat (fround2 (Fin (Open (hd data))))),
     (''closing_price'', PFloat (fround2 (Fin (Close (last data))))),
     (''highest_price'', PFloat (fround2 (Fin (Max (set (map High data)))))),
     (''lowest_price'', PFloat (fround2 (Fin (Min (set (map Low data)))))),
     (''average_price'', PFloat (fround2 (col_mean (map (\<lambda>r. Fin (Close r)) data)))),
     (''price_change'', PFloat (fround2 (fsub (Fin (Close (last data))) (Fin (Open (hd data)))))),
     (''percentage_change'', PFloat (fround2 (percentage_change (Close (last data)) (Open (hd data))))),
     (''average_volume'', PInt (average_volume data))]"

text \<open>
  What the specification calls rounded to two decimals, for a float: the float nearest
  to a number with two decimals. The fields it names price-like are listed.
\<close>

fun two_decimals :: "fval \<Rightarrow> bool" where
  "two_decimals (Fin x) = (\<exists>k :: int. float64 (of_int k / 100) = Fin x)"
| "two_decimals v = True"


text \<open>A plotting collaborator that succeeds; its image is the eight bytes of the PNG signature.\<close>

definition png_signature :: "8 word list" where
  "png_signature = [0x89, 0x50, 0x4E, 0x47, 0x0D, 0x0A, 0x1A, 0x0A]"

definition signature_render :: render_fn where
  "signature_render ticker name start_formatted end_formatted data = Inr png_signature"

text \<open>Two snapshots with one field absent each: the market cap, and the sector.\<close>

definition snapshot_without_market_cap :: "(string \<times> info_val) list" where
  "snapshot_without_market_cap =
     [(''longName'', IStr ''Apple Inc.''),
      (''sector'', IStr ''Technology''),
      (''industry'', IStr ''Consumer Electronics''),
      (''currentPrice'', IInt 190),
      (''fiftyTwoWeekHigh'', IInt 200),
      (''fiftyTwoWeekLow'', IInt 120)]"

definition info_without_market_cap :: info_fn where
  "info_without_market_cap ticker = Inr snapshot_without_market_cap"

definition snapshot_without_sector :: "(string \<times> info_val) list" where
  "snapshot_without_sector =
     [(''longName'', IStr ''Apple Inc.''),
      (''industry'', IStr ''Consumer Electronics''),
      (''currentPrice'', IInt 190),
      (''marketCap'', IInt 2950000000000),
      (''fiftyTwoWeekHigh'', IInt 200),
      (''fiftyTwoWeekLow'', IInt 120)]"

definition info_without_sector :: info_fn where
  "info_without_sector ticker = Inr snapshot_without_sector"

section \<open>Properties of the date codec\<close>

lemma digit_char_digit_val: "is_digit c \<Longrightarrow> digit_char (digit_val c) = c"
  unfolding is_digit_def digit_char_def digit_val_def by auto

lemma digit_val_less: "is_digit c \<Longrightarrow> digit_val c < 10"
  unfolding is_digit_def digit_val_def by auto

lemma digit_not_space: "is_digit c \<Longrightarrow> \<not> is_space c"
  unfolding is_digit_def is_space_def by auto

lemma digit_not_sign: "is_digit c \<Longrightarrow> c \<noteq> CHR ''-'' \<and> c \<noteq> CHR ''+''"
  unfolding is_digit_def by auto

lemma py_int_two_digits:
  assumes "is_digit a" "is_digit b"
  shows "py_int [a, b] = Inr (int (decimal_value [a, b]))"
  using assms digit_not_space[of a] digit_not_space[of b] digit_not_sign[of a]
  by (simp add: py_int_def strip_def unsigned_literal_def decimal_value_def)

lemma py_int_four_digits:
  assumes "is_digit a" "is_digit b" "is_digit c" "is_digit d"
  shows "py_int [a, b, c, d] = Inr (int (decimal_value [a, b, c, d]))"
  using assms digit_not_space[of a] digit_not_space[of d] digit_not_sign[of a]
  by (simp add: py_int_def strip_def unsigned_literal_def decimal_value_def)

lemma digit_char_of: "is_digit c \<Longrightarrow> k mod 10 = digit_val c \<Longrightarrow> digit_char k = c"
  using digit_char_digit_val[of c] by (simp add: digit_char_def)

lemma decimal_step:
  fixes q d :: nat
  assumes "d < 10"
  shows "(10 * q + d) mod 10 = d" "(10 * q + d) div 10 = q"
  using assms by simp_all

lemma pad2_two_digits:
  assumes "is_digit a" "is_digit b"
  shows "pad2 (decimal_value [a, b]) = [a, b]"
proof -
  define n where "n = decimal_value [a, b]"
  have lt: "digit_val a < 10" "digit_val b < 10"
    using assms by (simp_all add: digit_val_less)
  have n: "n = 10 * digit_val a + digit_val b"
    by (simp add: n_def decimal_value_def)
  have m0: "n mod 10 = digit_val b"
    unfolding n using lt(2) by (rule decimal_step(1))
  have q1: "n div 10 = digit_val a"
    unfolding n using lt(2) by (rule decimal_step(2))
  have m1: "n div 10 mod 10 = digit_val a"
    unfolding q1 using lt(1) by simp
  have "digit_char (n div 10) = a" "digit_char n = b"
    using assms m0 m1 by (simp_all add: digit_char_of)
  then show ?thesis by (simp add: pad2_def n_def)
qed

lemma str_nat_four_digits:
  assumes "is_digit a" "is_digit b" "is_digit c" "is_digit d"
    and "1000 \<le> decimal_value [a, b, c, d]"
  shows "str_nat (decimal_value [a, b, c, d]) = [a, b, c, d]"
proof -
  define n where "n = decimal_value [a, b, c, d]"
  have lt: "digit_val a < 10" "digit_val b < 10" "digit_val c < 10" "digit_val d < 10"
    using assms(1-4) by (simp_all add: digit_val_less)
  have n: "n = 10 * (10 * (10 * digit_val a + digit_val b) + digit_val c) + digit_val d"
    by (simp add: n_def decimal_value_def)
  have q1: "n div 10 = 10 * (10 * digit_val a + digit_val b) + digit_val c"
    unfolding n using lt(4) by (rule decimal_step(2))
  have q2: "n div 10 div 10 = 10 * digit_val a + digit_val b"
    unfolding q1 using lt(3) by (rule decimal_step(2))
  have q3: "n div 10 div 10 div 10 = digit_val a"
    unfolding q2 using lt(2) by (rule decimal_step(2))
  have m0: "n mod 10 = digit_val d"
    unfolding n using lt(4) by (rule decimal_step(1))
  have m1: "n div 10 mod 10 = digit_val c"
    unfolding q1 using lt(3) by (rule decimal_step(1))
  have m2: "n div 10 div 10 mod 10 = digit_val b"
    unfolding q2 using lt(2) by (rule decimal_step(1))
  have m3: "n div 10 div 10 div 10 mod 10 = digit_val a"
    unfolding q3 using lt(1) by simp
  have big: "1000 \<le> n" using assms(5) by (simp add: n_def)
  then have g0: "\<not> n < 10" "\<not> n div 10 < 10" "\<not> n div 10 div 10 < 10" by simp_all
  have g3: "n div 10 div 10 div 10 < 10" unfolding q3 by (rule lt(1))
  have s3: "str_nat (n div 10 div 10 div 10) = [a]"
    using g3 assms(1) m3 by (subst str_nat.simps) (simp add: digit_char_of)
  have s2: "str_nat (n div 10 div 10) = [a, b]"
    using g0(3) assms(2) m2 by (subst str_nat.simps) (simp add: s3 digit_char_of)
  have s1: "str_nat (n div 10) = [a, b, c]"
    using g0(2) assms(3) m1 by (subst str_nat.simps) (simp add: s2 digit_char_of)
  have "str_nat n = [a, b, c, d]"
    using g0(1) assms(4) m0 by (subst str_nat.simps) (simp add: s1 digit_char_of)
  then show ?thesis by (simp add: n_def)
qed

lemma length_eight:
  assumes "length tok = 8"
  obtains a b c d e f g h where "tok = [a, b, c, d, e, f, g, h]"
  using assms by (auto simp: length_Suc_conv eval_nat_numeral)

lemma decimal_value_four_less:
  assumes "is_digit a" "is_digit b" "is_digit c" "is_digit d"
  shows "decimal_value [a, b, c, d] < 10000"
  using assms[THEN digit_val_less] by (simp add: decimal_value_def)

text \<open>
  Claim C2, amended. For every token of eight digits MMDDYYYY whose month is in 1..12,
  whose day exists in that month of that year (leap years included) and whose year is
  1000 or later, \<open>parse_date\<close> returns the ISO string: the four year digits, the two
  month digits and the two day digits of the token, joined by hyphens.
\<close>

theorem parse_date_calendar_token:
  assumes "is_calendar_token tok" and "1000 \<le> token_year tok"
  shows "parse_date tok = Inr (drop 4 tok @ ''-'' @ take 2 tok @ ''-'' @ take 2 (drop 2 tok))"
proof -
  from assms(1) have len: "length tok = 8" by (simp add: is_calendar_token_def)
  then obtain a b c d e f g h where tok: "tok = [a, b, c, d, e, f, g, h]"
    by (rule length_eight)
  from assms(1) have dig: "is_digit a" "is_digit b" "is_digit c" "is_digit d"
    "is_digit e" "is_digit f" "is_digit g" "is_digit h"
    by (simp_all add: is_calendar_token_def tok)
  define m where "m = decimal_value [a, b]"
  define dd where "dd = decimal_value [c, d]"
  define y where "y = decimal_value [e, f, g, h]"
  have rng: "1 \<le> m" "m \<le> 12" "1 \<le> dd" "dd \<le> days_in_month y m" "1000 \<le> y"
    using assms by (simp_all add: is_calendar_token_def tok token_month_def token_day_def
        token_year_def m_def dd_def y_def)
  have y_lt: "y < 10000" unfolding y_def using dig by (simp add: decimal_value_four_less)
  have dim: "days_in_month y m \<le> 31" by (simp add: days_in_month_def)
  have pm: "py_int [a, b] = Inr (int m)" and pd: "py_int [c, d] = Inr (int dd)"
    and py: "py_int [e, f, g, h] = Inr (int y)"
    using dig by (simp_all add: py_int_two_digits py_int_four_digits m_def dd_def y_def)
  have mk: "mk_datetime (int y) (int m) (int dd)
      = Inr \<lparr>dt_year = y, dt_month = m, dt_day = dd\<rparr>"
    using rng y_lt dim by (simp add: mk_datetime_def fits_c_int_def)
  have fmt: "strftime_ymd \<lparr>dt_year = y, dt_month = m, dt_day = dd\<rparr>
      = [e, f, g, h] @ ''-'' @ [a, b] @ ''-'' @ [c, d]"
    using dig rng(5)
    by (simp add: strftime_ymd_def m_def dd_def pad2_two_digits
        str_nat_four_digits[of e f g h, folded y_def])
  have "parse_date_try tok = Inr ([e, f, g, h] @ ''-'' @ [a, b] @ ''-'' @ [c, d])"
    by (simp add: parse_date_try_def tok pm pd py mk fmt)
  then show ?thesis by (simp add: parse_date_def tok)
qed

theorem parse_date_calendar_token_witness:
  "is_calendar_token ''02292024'' \<and> 1000 \<le> token_year ''02292024'' \<and>
   parse_date ''02292024'' = Inr ''2024-02-29''"
proof -
  have a: "is_calendar_token ''02292024''" by code_simp
  have b: "1000 \<le> token_year ''02292024''"
    by (simp add: token_year_def decimal_value_def digit_val_def)
  show ?thesis using a b parse_date_calendar_token [OF a b] by simp
qed

text \<open>
  Claim C2 as stated fails at the token 01010000: it has eight digits, month 01 and day
  01, yet the year 0000 is below \<^verbatim>\<open>MINYEAR\<close> and the token is rejected. It fails
  at 01010001 too: the date is accepted, but the year is printed as one digit, so the
  string returned is not of the form YYYY-MM-DD.
\<close>

theorem parse_date_year_zero_counterexample:
  "is_calendar_token ''01010000''
   \<and> parse_date ''01010000''
       = Inl (ValueError ''Invalid date format: 01010000. Expected mmddyyyy format.'')
   \<and> is_calendar_token ''01010001''
   \<and> parse_date ''01010001'' = Inr ''1-01-01''"
  by code_simp

text \<open>
  Claim C3 at the token 010124 of six characters: the slices give month 01, day 01 and
  year 24, a date that exists, so \<open>parse_date\<close> returns the string for that date instead
  of failing. The same happens to the token 0101202 of seven characters.
\<close>

theorem parse_date_short_token_accepted:
  "parse_date ''010124'' = Inr ''24-01-01'' \<and> parse_date ''0101202'' = Inr ''202-01-01''"
  by code_simp

section \<open>Properties of binary64 rounding\<close>

text \<open>Powers of two, bit lengths and rounding to the nearest integer.\<close>

lemma pow2_powi: "pow2 k = 2 powi k"
  by (simp add: pow2_def power_int_def power_one_over)

lemma pow2_pos: "0 < pow2 k"
  by (simp add: pow2_powi)

lemma pow2_add: "pow2 (i + j) = pow2 i * pow2 j"
  by (simp add: pow2_powi power_int_add)

lemma pow2_strict_mono: "i < j \<Longrightarrow> pow2 i < pow2 j"
  unfolding pow2_powi by (rule power_int_strict_increasing) simp_all

lemma pow2_mono: "i \<le> j \<Longrightarrow> pow2 i \<le> pow2 j"
  unfolding pow2_powi by (rule power_int_increasing) simp_all

lemma pow2_less_iff: "pow2 i < pow2 j \<longleftrightarrow> i < j"
  using pow2_strict_mono[of i j] pow2_mono[of j i] by (cases "i < j") auto

lemma pow2_le_iff: "pow2 i \<le> pow2 j \<longleftrightarrow> i \<le> j"
  using pow2_strict_mono[of j i] pow2_mono[of i j] by (cases "i \<le> j") auto

lemma pow2_nat: "pow2 (int n) = 2 ^ n"
  by (simp add: pow2_def)

lemma pow2_of_int: "0 \<le> k \<Longrightarrow> pow2 k = of_int (2 ^ nat k)"
  by (simp add: pow2_def)

lemma nbits_bounds: "0 < n \<Longrightarrow> 2 ^ (nbits n - 1) \<le> n \<and> n < 2 ^ nbits n"
proof (induction n rule: nbits.induct)
  case (1 n)
  show ?case
  proof (cases "n div 2 = 0")
    case True
    with "1.prems" have "n = 1" by (simp add: div_eq_0_iff)
    then show ?thesis by (simp add: nbits.simps)
  next
    case False
    then have pos: "0 < n div 2" by simp
    from "1.IH" "1.prems" pos
    have ih: "2 ^ (nbits (n div 2) - 1) \<le> n div 2" "n div 2 < 2 ^ nbits (n div 2)" by simp_all
    have nb: "nbits n = Suc (nbits (n div 2))" using "1.prems" by (subst nbits.simps) simp
    have p: "0 < nbits (n div 2)" using pos by (subst nbits.simps) simp
    then have e: "2 ^ (nbits n - 1) = 2 * (2::nat) ^ (nbits (n div 2) - 1)"
      unfolding nb by (cases "nbits (n div 2)") simp_all
    have "2 * (n div 2) \<le> n" by simp
    with ih(1) have lo: "2 ^ (nbits n - 1) \<le> n" unfolding e by linarith
    have "n < 2 * (n div 2) + 2" by presburger
    with ih(2) have hi: "n < 2 ^ nbits n" unfolding nb by simp
    from lo hi show ?thesis by simp
  qed
qed

lemma nbits_pos: "0 < n \<Longrightarrow> 0 < nbits n"
  by (subst nbits.simps) simp

lemma rint_near: "\<bar>of_int (rint x) - x\<bar> \<le> 1 / 2"
proof -
  have "of_int \<lfloor>x\<rfloor> \<le> x" "x < of_int \<lfloor>x\<rfloor> + 1" by linarith+
  then show ?thesis unfolding rint_def Let_def by auto
qed

lemma rint_of_int: "rint (of_int n) = n"
  by (simp add: rint_def)

lemma rint_le: "x \<le> of_int n \<Longrightarrow> rint x \<le> n"
proof -
  assume a: "x \<le> of_int n"
  show ?thesis
  proof (cases "x = of_int n")
    case True
    then show ?thesis by (simp add: rint_of_int)
  next
    case False
    with a have "x < of_int n" by simp
    then have "\<lfloor>x\<rfloor> < n" by (simp add: floor_less_iff)
    then show ?thesis unfolding rint_def Let_def by auto
  qed
qed

lemma rint_nonneg: "0 \<le> x \<Longrightarrow> 0 \<le> rint x"
proof -
  assume "0 \<le> x"
  then have "0 \<le> \<lfloor>x\<rfloor>" by simp
  then show ?thesis unfolding rint_def Let_def by auto
qed

lemma rint_eq: "of_int n \<le> x \<Longrightarrow> x < of_int n + 1 / 2 \<Longrightarrow> rint x = n"
proof -
  assume a: "of_int n \<le> x" "x < of_int n + 1 / 2"
  then have "\<lfloor>x\<rfloor> = n" by (intro floor_unique) auto
  with a show ?thesis unfolding rint_def Let_def by auto
qed

text \<open>The binary exponent brackets its argument.\<close>

lemma ilog2_bounds:
  assumes "0 < a"
  shows "pow2 (ilog2 a) \<le> a" and "a < pow2 (ilog2 a + 1)"
proof -
  have both: "pow2 (ilog2 a) \<le> a \<and> a < pow2 (ilog2 a + 1)"
  proof (cases "1 \<le> a")
    case True
    define n where "n = nat \<lfloor>a\<rfloor>"
    from True have fl: "1 \<le> \<lfloor>a\<rfloor>" by simp
    then have n: "0 < n" "of_nat n \<le> a" "a < of_nat n + 1"
      unfolding n_def by (simp_all add: of_nat_nat) linarith+
    from nbits_bounds[OF n(1)] have nb: "2 ^ (nbits n - 1) \<le> n" "n < 2 ^ nbits n" by simp_all
    have k: "ilog2 a = int (nbits n - 1)"
      using True nbits_pos[OF n(1)] by (simp add: ilog2_def n_def)
    have lo: "pow2 (ilog2 a) \<le> a"
    proof -
      have "(2::rat) ^ (nbits n - 1) \<le> of_nat n"
        using nb(1) by (metis of_nat_le_iff of_nat_numeral of_nat_power)
      with n(2) show ?thesis unfolding k pow2_nat by linarith
    qed
    have "Suc n \<le> 2 ^ nbits n" using nb(2) by simp
    then have "(of_nat (Suc n) :: rat) \<le> 2 ^ nbits n"
      by (metis of_nat_le_iff of_nat_numeral of_nat_power)
    with n(3) have "a < 2 ^ nbits n" by simp
    moreover have "ilog2 a + 1 = int (nbits n)"
      unfolding k using nbits_pos[OF n(1)] by simp
    ultimately have hi: "a < pow2 (ilog2 a + 1)" by (simp add: pow2_nat)
    from lo hi show ?thesis by simp
  next
    case False
    define b where "b = 1 / a"
    define n where "n = nat \<lfloor>b\<rfloor>"
    define j where "j = int (nbits n) - 1"
    from False assms have b1: "1 < b" by (simp add: b_def)
    then have fl: "1 \<le> \<lfloor>b\<rfloor>" by simp
    then have n: "0 < n" "of_nat n \<le> b" "b < of_nat n + 1"
      unfolding n_def by (simp_all add: of_nat_nat) linarith+
    from nbits_bounds[OF n(1)] have nb: "2 ^ (nbits n - 1) \<le> n" "n < 2 ^ nbits n" by simp_all
    have jn: "j = int (nbits n - 1)" using nbits_pos[OF n(1)] by (simp add: j_def)
    have "(2::rat) ^ (nbits n - 1) \<le> of_nat n"
      using nb(1) by (metis of_nat_le_iff of_nat_numeral of_nat_power)
    with n(2) have blo: "pow2 j \<le> b" unfolding jn pow2_nat by linarith
    have "Suc n \<le> 2 ^ nbits n" using nb(2) by simp
    then have "(of_nat (Suc n) :: rat) \<le> 2 ^ nbits n"
      by (metis of_nat_le_iff of_nat_numeral of_nat_power)
    with n(3) have "b < 2 ^ nbits n" by simp
    moreover have "j + 1 = int (nbits n)" by (simp add: j_def)
    ultimately have bhi: "b < pow2 (j + 1)" by (simp add: pow2_nat)
    have inv: "pow2 (- i) = 1 / pow2 i" for i
      by (simp add: pow2_powi power_int_minus_divide)
    have a_eq: "a = 1 / b" using assms by (simp add: b_def)
    have ahi: "a \<le> pow2 (- j)"
      unfolding inv a_eq using blo pow2_pos[of j] b1 by (simp add: frac_le)
    have alo: "pow2 (- j - 1) < a"
    proof -
      have "1 / pow2 (j + 1) < 1 / b"
        using bhi b1 by (intro divide_strict_left_mono) (simp_all add: pow2_pos)
      moreover have "- j - 1 = - (j + 1)" by simp
      ultimately show ?thesis unfolding a_eq by (simp only: inv)
    qed
    have k: "ilog2 a = (if a = pow2 (- j) then - j else - j - 1)"
      using False by (simp add: ilog2_def Let_def b_def n_def j_def)
    show ?thesis
    proof (cases "a = pow2 (- j)")
      case True
      then have "ilog2 a = - j" using k by simp
      then show ?thesis using True pow2_strict_mono[of "- j" "- j + 1"] by simp
    next
      case False
      then have "ilog2 a = - j - 1" using k by simp
      then show ?thesis using False ahi alo by simp
    qed
  qed
  from both show "pow2 (ilog2 a) \<le> a" by simp
  from both show "a < pow2 (ilog2 a + 1)" by simp
qed

lemma ilog2_le: "0 < a \<Longrightarrow> a < pow2 (m + 1) \<Longrightarrow> ilog2 a \<le> m"
  using ilog2_bounds(1)[of a] pow2_less_iff[of "ilog2 a" "m + 1"] by simp

lemma ilog2_ge: "0 < a \<Longrightarrow> pow2 m \<le> a \<Longrightarrow> m \<le> ilog2 a"
  using ilog2_bounds(2)[of a] pow2_less_iff[of m "ilog2 a + 1"] by simp

lemma ilog2_eq: "pow2 m \<le> a \<Longrightarrow> a < pow2 (m + 1) \<Longrightarrow> ilog2 a = m"
  using ilog2_le[of a m] ilog2_ge[of a m] pow2_pos[of m] by simp

text \<open>Rounding is monotone on magnitudes, symmetric in the sign and fixes powers of two.\<close>

lemma round_mag_nonneg: "0 \<le> a \<Longrightarrow> 0 \<le> round_mag a"
  unfolding round_mag_def Let_def
  by (intro mult_nonneg_nonneg) (simp_all add: rint_nonneg pow2_pos less_imp_le)

lemma round_mag_le:
  assumes "0 < a" and "a \<le> pow2 m" and "- 1022 \<le> m"
  shows "round_mag a \<le> pow2 m"
proof -
  define e where "e = max (ilog2 a) (- 1022) - 52"
  have "a < pow2 (m + 1)" using assms(2) pow2_strict_mono[of m "m + 1"] by simp
  then have "ilog2 a \<le> m" using assms(1) by (rule ilog2_le[rotated])
  with assms(3) have em: "0 \<le> m - e" unfolding e_def by simp
  have split: "pow2 m = pow2 (m - e) * pow2 e"
    using pow2_add[of "m - e" e] by simp
  have "a / pow2 e \<le> pow2 (m - e)"
    using assms(2) pow2_pos[of e] unfolding split by (simp add: pos_divide_le_eq)
  also have "pow2 (m - e) = of_int (2 ^ nat (m - e))" using em by (rule pow2_of_int)
  finally have "rint (a / pow2 e) \<le> 2 ^ nat (m - e)" by (rule rint_le)
  then have "(of_int (rint (a / pow2 e)) :: rat) \<le> of_int (2 ^ nat (m - e))"
    by (simp only: of_int_le_iff)
  then have "of_int (rint (a / pow2 e)) \<le> pow2 (m - e)"
    using pow2_of_int[OF em] by simp
  then have "of_int (rint (a / pow2 e)) * pow2 e \<le> pow2 (m - e) * pow2 e"
    using pow2_pos[of e] by (simp add: mult_right_mono)
  then show ?thesis unfolding round_mag_def Let_def e_def[symmetric] split .
qed

lemma round_mag_absorb:
  assumes "pow2 117 \<le> a" and "a \<le> pow2 117 + pow2 63"
  shows "round_mag a = pow2 117"
proof -
  have "pow2 63 < pow2 117" by (simp add: pow2_less_iff)
  with assms(2) have "a < pow2 117 + pow2 117" by simp
  also have "pow2 117 + pow2 117 = pow2 (117 + 1)"
    using pow2_add[of 117 1] by (simp add: pow2_def)
  finally have k: "ilog2 a = 117" using assms(1) by (intro ilog2_eq)
  have e: "max (ilog2 a) (- 1022) - 52 = 65" unfolding k by simp
  have s117: "pow2 117 = of_int (2 ^ 52) * pow2 65"
    using pow2_add[of 52 65] by (simp add: pow2_def)
  have s63: "pow2 63 = (1 / 4) * pow2 65"
    using pow2_add[of "- 2" 65] by (simp add: pow2_def)
  have lo: "of_int (2 ^ 52) \<le> a / pow2 65"
    using assms(1) pow2_pos[of 65] unfolding s117 by (simp add: pos_le_divide_eq)
  have "a \<le> (of_int (2 ^ 52) + 1 / 4) * pow2 65"
    using assms(2) unfolding s117 s63 by (simp add: algebra_simps)
  then have "a / pow2 65 \<le> of_int (2 ^ 52) + 1 / 4"
    using pow2_pos[of 65] by (simp only: pos_divide_le_eq)
  then have hi: "a / pow2 65 < of_int (2 ^ 52) + 1 / 2" by linarith
  have "rint (a / pow2 65) = 2 ^ 52" using lo hi by (rule rint_eq)
  then show ?thesis unfolding round_mag_def Let_def e s117 by simp
qed

lemma float64_minus: "float64 (- x) = fneg (float64 x)"
  by (simp add: float64_def Let_def)

lemma float64_pos:
  "0 < x \<Longrightarrow> float64 x = (if pow2 1024 \<le> round_mag x then PInf else Fin (round_mag x))"
  by (simp add: float64_def Let_def)

lemma fabs_float64: "0 \<le> x \<Longrightarrow> fabs (float64 x) = float64 x"
proof (cases "x = 0")
  case True
  then show ?thesis by (simp add: float64_def)
next
  case False
  assume "0 \<le> x"
  with False have "0 < x" by simp
  then show ?thesis using round_mag_nonneg[of x] by (simp add: float64_pos)
qed

lemma fabs_fneg: "fabs (fneg v) = fabs v"
  by (cases v) simp_all

lemma float64_bounded:
  assumes "\<bar>x\<bar> \<le> pow2 m" and "- 1022 \<le> m" and "m < 1024"
  shows "\<exists>y. float64 x = Fin y \<and> \<bar>y\<bar> \<le> pow2 m"
proof (cases "x = 0")
  case True
  then show ?thesis using pow2_pos[of m] by (simp add: float64_def less_imp_le)
next
  case False
  then have a: "0 < \<bar>x\<bar>" by simp
  have le: "round_mag \<bar>x\<bar> \<le> pow2 m" using a assms(1,2) by (rule round_mag_le)
  have "pow2 m < pow2 1024" using assms(3) by (simp add: pow2_less_iff)
  with le have fin: "\<not> pow2 1024 \<le> round_mag \<bar>x\<bar>" by simp
  have nn: "0 \<le> round_mag \<bar>x\<bar>" by (rule round_mag_nonneg) simp
  show ?thesis
  proof (cases "0 < x")
    case True
    then have "\<bar>x\<bar> = x" by simp
    with fin le nn True show ?thesis by (simp add: float64_def Let_def)
  next
    case neg: False
    with False have "\<bar>x\<bar> = - x" by simp
    with fin le nn neg False show ?thesis by (simp add: float64_def Let_def)
  qed
qed

text \<open>
  Sums of 64-bit volumes stay finite: below \<open>2 ^ 117\<close> in magnitude a partial sum moves by
  less than half a unit in the last place once it reaches that bound, so it never passes it.
\<close>

lemma float64_absorb:
  assumes "pow2 117 < \<bar>z\<bar>" and "\<bar>z\<bar> \<le> pow2 117 + pow2 63"
  shows "\<exists>y. float64 z = Fin y \<and> \<bar>y\<bar> \<le> pow2 117"
proof -
  have r: "round_mag \<bar>z\<bar> = pow2 117"
    using assms by (intro round_mag_absorb) simp_all
  have fin: "\<not> pow2 1024 \<le> pow2 117" by (simp add: pow2_le_iff)
  have z: "z \<noteq> 0" using assms(1) pow2_pos[of 117] by auto
  have p: "0 \<le> pow2 117" using pow2_pos[of 117] by simp
  show ?thesis using z fin p by (simp add: float64_def Let_def r)
qed

lemma fadd_bounded:
  assumes "\<bar>s\<bar> \<le> pow2 117" and "\<bar>v\<bar> \<le> pow2 63"
  shows "\<exists>y. fadd (Fin s) (Fin v) = Fin y \<and> \<bar>y\<bar> \<le> pow2 117"
proof (cases "\<bar>s + v\<bar> \<le> pow2 117")
  case True
  then show ?thesis using float64_bounded[of "s + v" 117] by simp
next
  case False
  then have lo: "pow2 117 < \<bar>s + v\<bar>" by simp
  have "\<bar>s + v\<bar> \<le> \<bar>s\<bar> + \<bar>v\<bar>" by (rule abs_triangle_ineq)
  with assms have hi: "\<bar>s + v\<bar> \<le> pow2 117 + pow2 63" by linarith
  from float64_absorb[OF lo hi] show ?thesis by simp
qed

lemma volume_float_bounded:
  fixes w :: "64 word"
  shows "\<exists>y. float64 (of_int (sint w)) = Fin y \<and> \<bar>y\<bar> \<le> pow2 63"
proof -
  have "- (2 ^ 63) \<le> sint w" "sint w < 2 ^ 63"
    using sint_ge[of w] sint_lt[of w] by simp_all
  then have "\<bar>sint w\<bar> \<le> 2 ^ 63" by simp
  then have "\<bar>(of_int (sint w) :: rat)\<bar> \<le> of_int (2 ^ 63)"
    by (metis of_int_abs of_int_le_iff)
  then have "\<bar>(of_int (sint w) :: rat)\<bar> \<le> pow2 63" by (simp add: pow2_def)
  then show ?thesis by (intro float64_bounded) simp_all
qed

lemma foldl_fadd_bounded:
  assumes "\<forall>x \<in> set xs. \<exists>v. x = Fin v \<and> \<bar>v\<bar> \<le> pow2 63" and "\<bar>s\<bar> \<le> pow2 117"
  shows "\<exists>y. foldl fadd (Fin s) xs = Fin y \<and> \<bar>y\<bar> \<le> pow2 117"
  using assms
proof (induction xs arbitrary: s)
  case Nil
  then show ?case by simp
next
  case (Cons x xs)
  from Cons.prems(1) obtain v where v: "x = Fin v" "\<bar>v\<bar> \<le> pow2 63" by auto
  from fadd_bounded[OF Cons.prems(2) v(2)]
  obtain y where y: "fadd (Fin s) (Fin v) = Fin y" "\<bar>y\<bar> \<le> pow2 117" by blast
  from Cons.prems(1) have rest: "\<forall>x \<in> set xs. \<exists>v. x = Fin v \<and> \<bar>v\<bar> \<le> pow2 63" by simp
  have "foldl fadd (Fin s) (x # xs) = foldl fadd (Fin y) xs"
    unfolding v(1) foldl_Cons y(1) ..
  with Cons.IH[OF rest y(2)] show ?case by simp
qed

lemma mean_volume_finite:
  assumes "data \<noteq> []"
  shows "\<exists>m. col_mean (volume_floats data) = Fin m"
proof -
  have ent: "\<forall>x \<in> set (volume_floats data). \<exists>v. x = Fin v \<and> \<bar>v\<bar> \<le> pow2 63"
    using volume_float_bounded by (auto simp: volume_floats_def)
  have z: "\<bar>0 :: rat\<bar> \<le> pow2 117" using pow2_pos[of 117] by simp
  from foldl_fadd_bounded[OF ent z]
  obtain s where s: "col_sum (volume_floats data) = Fin s" "\<bar>s\<bar> \<le> pow2 117"
    unfolding col_sum_def by blast
  define n where "n = length data"
  have n: "1 \<le> (of_nat n :: rat)" using assms by (cases data) (simp_all add: n_def)
  have "\<bar>s\<bar> * 1 \<le> \<bar>s\<bar> * of_nat n"
    using n by (intro mult_left_mono) simp_all
  then have "\<bar>s / of_nat n\<bar> \<le> \<bar>s\<bar>"
    using n by (simp add: abs_divide pos_divide_le_eq)
  with s(2) have "\<bar>s / of_nat n\<bar> \<le> pow2 117" by simp
  from float64_bounded[OF this]
  obtain m where "float64 (s / of_nat n) = Fin m" by auto
  moreover have len: "length (volume_floats data) = n" "volume_floats data \<noteq> []"
    using assms by (simp_all add: volume_floats_def n_def)
  moreover have "of_nat n \<noteq> (0 :: rat)" using n by simp
  ultimately have "col_mean (volume_floats data) = float64 (s / of_nat n)"
    by (simp add: col_mean_def s(1))
  moreover note \<open>float64 (s / of_nat n) = Fin m\<close>
  ultimately show ?thesis by simp
qed

lemma average_volume_eq:
  assumes "data \<noteq> []"
  shows "int_of_float (col_mean (volume_floats data)) = Inr (average_volume data)"
  using mean_volume_finite[OF assms] by (auto simp: average_volume_def)

lemma fround2_two_decimals: "two_decimals (fround2 v)"
proof (cases "fmul v (Fin 100)")
  case (Fin z)
  then show ?thesis
    by (cases "float64 (of_int (rint z) / 100)") (auto simp: fround2_def)
qed (simp_all add: fround2_def)

lemma fround2_inf_of_sign: "fround2 (inf_of_sign x) = inf_of_sign x"
  by (simp add: inf_of_sign_def fround2_def)

lemma fsub_of_greater: "fgt a b \<Longrightarrow> fsub a b = fabs (fsub a b)"
  by (cases a; cases b) (simp_all add: fabs_float64)

lemma fsub_of_not_greater: "\<not> fgt a b \<Longrightarrow> fsub b a = fabs (fsub a b)"
proof (cases a; cases b)
  fix x y
  assume ab: "a = Fin x" "b = Fin y" and "\<not> fgt a b"
  then have le: "0 \<le> y - x" by simp
  have "float64 (x - y) = fneg (float64 (y - x))"
    using float64_minus[of "y - x"] by simp
  then show "fsub b a = fabs (fsub a b)"
    using fabs_float64[OF le] by (simp add: ab fabs_fneg)
qed auto

text \<open>Evaluation of the rounding at given arguments.\<close>

lemma floor_numeral_div:
  "\<lfloor>(numeral a :: rat) / numeral b\<rfloor> = numeral a div numeral b"
  by (metis floor_divide_of_int_eq of_int_numeral)

lemmas float64_arith = pow2_def rint_def Let_def floor_numeral_div

lemma float64_pos_eval:
  assumes "0 < x" and "pow2 k \<le> x" and "x < pow2 (k + 1)"
    and "e = max k (- 1022) - 52" and "rint (x / pow2 e) = m"
    and "of_int m * pow2 e = y" and "y < pow2 1024"
  shows "float64 x = Fin y"
proof -
  have "ilog2 x = k" using assms(2,3) by (rule ilog2_eq)
  then have "round_mag x = y" using assms(4-6) by (simp add: round_mag_def Let_def)
  then show ?thesis using assms(1,7) by (simp add: float64_pos)
qed

lemma float64_of_pos_int:
  assumes "0 < i" and "i < 2 ^ 53"
  shows "float64 (of_int i) = Fin (of_int i)"
proof -
  define a :: rat where "a = of_int i"
  define k where "k = ilog2 a"
  have pos: "0 < a" using assms(1) by (simp add: a_def)
  have "pow2 0 \<le> a" using assms(1) by (simp add: a_def pow2_def)
  then have k0: "0 \<le> k" unfolding k_def using pos by (intro ilog2_ge)
  have "a < of_int (2 ^ 53)" unfolding a_def using assms(2) by (simp only: of_int_less_iff)
  then have lt: "a < pow2 (52 + 1)" by (simp add: pow2_def)
  then have k52: "k \<le> 52" unfolding k_def using pos by (intro ilog2_le)
  define e where "e = k - 52"
  have e: "max (ilog2 a) (- 1022) - 52 = e" using k0 by (simp add: e_def k_def)
  have ne: "0 \<le> - e" using k52 by (simp add: e_def)
  have inv: "pow2 (- e) * pow2 e = 1" using pow2_add[of "- e" e] by (simp add: pow2_def)
  then have "a / pow2 e = a * pow2 (- e)"
    using pow2_pos[of e] by (simp add: field_simps)
  also have "\<dots> = of_int (i * 2 ^ nat (- e))"
    using pow2_of_int[OF ne] by (simp add: a_def)
  finally have "rint (a / pow2 e) = i * 2 ^ nat (- e)" by (simp only: rint_of_int)
  then have "of_int (rint (a / pow2 e)) * pow2 e = a * (pow2 (- e) * pow2 e)"
    using pow2_of_int[OF ne] by (simp add: a_def)
  then have r: "round_mag a = a" unfolding round_mag_def Let_def e inv by simp
  have "pow2 (52 + 1) < pow2 1024" by (simp add: pow2_less_iff)
  with lt have "\<not> pow2 1024 \<le> a" by simp
  then show ?thesis using pos r unfolding a_def[symmetric] by (simp add: float64_pos)
qed

lemma float64_of_int:
  assumes "\<bar>i\<bar> < 2 ^ 53"
  shows "float64 (of_int i) = Fin (of_int i)"
proof (cases "0 < i")
  case True
  then show ?thesis using assms by (intro float64_of_pos_int) simp_all
next
  case False
  show ?thesis
  proof (cases "i = 0")
    case True
    then show ?thesis by (simp add: float64_def)
  next
    case nz: False
    with False have "0 < - i" "- i < 2 ^ 53" using assms by simp_all
    then have "float64 (of_int (- i)) = Fin (of_int (- i))" by (rule float64_of_pos_int)
    then have "fneg (float64 (of_int i)) = Fin (- of_int i)"
      using float64_minus[of "of_int i"] by simp
    then show ?thesis by (cases "float64 (of_int i)") simp_all
  qed
qed

lemma float64_numeral: "numeral n < (2 ^ 53 :: int) \<Longrightarrow> float64 (numeral n) = Fin (numeral n)"
  using float64_of_int[of "numeral n"] by simp

lemma f64_161_160: "float64 (161 / 160) = Fin (2265873562520781 / 2251799813685248)"
  by (rule float64_pos_eval[where k = 0 and e = "- 52" and m = 4531747125041562])
    (simp_all add: float64_arith)

lemma f64_161_160_minus_1: "float64 (2265873562520781 / 2251799813685248 - 1) = Fin (14073748835533 / 2251799813685248)"
  by (rule float64_pos_eval[where k = "- 8" and e = "- 60" and m = 7205759403792896])
    (simp_all add: float64_arith)

lemma f64_161_160_percent: "float64 (14073748835533 / 2251799813685248 * 100) = Fin (351843720888325 / 562949953421312)"
  by (rule float64_pos_eval[where k = "- 1" and e = "- 53" and m = 5629499534213200])
    (simp_all add: float64_arith)

lemma f64_161_160_scaled: "float64 (351843720888325 / 562949953421312 * 100) = Fin (8796093022208125 / 140737488355328)"
  by (rule float64_pos_eval[where k = 5 and e = "- 47" and m = 8796093022208125])
    (simp_all add: float64_arith)

lemma f64_63_100: "float64 (63 / 100) = Fin (5674535530486825 / 9007199254740992)"
  by (rule float64_pos_eval[where k = "- 1" and e = "- 53" and m = 5674535530486825])
    (simp_all add: float64_arith)

lemma f64_msft_ratio: "float64 (20607 / 128 / 160) = Fin (2265763611358003 / 2251799813685248)"
  by (rule float64_pos_eval[where k = 0 and e = "- 52" and m = 4531527222716006])
    (simp_all add: float64_arith)

lemma f64_msft_minus_1: "float64 (2265763611358003 / 2251799813685248 - 1) = Fin (13963797672755 / 2251799813685248)"
  by (rule float64_pos_eval[where k = "- 8" and e = "- 60" and m = 7149464408450560])
    (simp_all add: float64_arith)

lemma f64_msft_percent: "float64 (13963797672755 / 2251799813685248 * 100) = Fin (349094941818875 / 562949953421312)"
  by (rule float64_pos_eval[where k = "- 1" and e = "- 53" and m = 5585519069102000])
    (simp_all add: float64_arith)

lemma f64_msft_scaled: "float64 (349094941818875 / 562949953421312 * 100) = Fin (8727373545471875 / 140737488355328)"
  by (rule float64_pos_eval[where k = 5 and e = "- 47" and m = 8727373545471875])
    (simp_all add: float64_arith)

lemma f64_62_100: "float64 (62 / 100) = Fin (5584463537939415 / 9007199254740992)"
  by (rule float64_pos_eval[where k = "- 1" and e = "- 53" and m = 5584463537939415])
    (simp_all add: float64_arith)

lemma f64_gap: "float64 (5674535530486825 / 9007199254740992 - 5584463537939415 / 9007199254740992) = Fin (45035996273705 / 4503599627370496)"
  by (rule float64_pos_eval[where k = "- 7" and e = "- 59" and m = 5764607523034240])
    (simp_all add: float64_arith)

lemma f64_gap_scaled: "float64 (45035996273705 / 4503599627370496 * 100) = Fin (1125899906842625 / 1125899906842624)"
  by (rule float64_pos_eval[where k = 0 and e = "- 52" and m = 4503599627370500])
    (simp_all add: float64_arith)

lemma f64_1_100: "float64 (1 / 100) = Fin (5764607523034235 / 576460752303423488)"
  by (rule float64_pos_eval[where k = "- 7" and e = "- 59" and m = 5764607523034235])
    (simp_all add: float64_arith)



section \<open>Properties of the statistics\<close>

lemma col_max_Max: "xs \<noteq> [] \<Longrightarrow> col_max xs = Fin (Max (set xs))"
proof (cases xs)
  case (Cons a list)
  then show ?thesis using Max.set_eq_fold[of a list] by simp
qed simp

lemma col_min_Min: "xs \<noteq> [] \<Longrightarrow> col_min xs = Fin (Min (set xs))"
proof (cases xs)
  case (Cons a list)
  then show ?thesis using Min.set_eq_fold[of a list] by simp
qed simp

lemma stats_nonempty:
  assumes "data \<noteq> []"
  shows "stats ticker name s e data = Inr (stats_dict ticker name s e data)"
proof -
  from assms obtain r rs where d: "data = r # rs" by (cases data) auto
  have f: "iloc_first (map Open data) = Inr (Open (hd data))"
    by (simp add: iloc_first_def d)
  have l: "iloc_last (map Close data) = Inr (Close (last data))"
    using assms by (simp add: iloc_last_def last_map)
  note v = average_volume_eq[OF assms]
  have mx: "col_max (map High data) = Fin (Max (set (map High data)))"
    using assms by (simp add: col_max_Max)
  have mn: "col_min (map Low data) = Fin (Min (set (map Low data)))"
    using assms by (simp add: col_min_Min)
  show ?thesis
    unfolding stats_def f l v mx mn by (simp add: bind_exn_def stats_dict_def)
qed

lemma get_stock_data_try_nonempty:
  assumes "parse_date start_date = Inr s" "parse_date end_date = Inr e"
    "history ticker s e = Inr data" "data \<noteq> []"
  shows "get_stock_data_try history ticker name start_date end_date
    = Inr (stats_dict ticker name s e data)"
  using assms stats_nonempty[OF assms(4), of ticker name s e]
  by (simp add: get_stock_data_try_def bind_exn_def)

lemma get_stock_data_nonempty:
  assumes "parse_date start_date = Inr s" "parse_date end_date = Inr e"
    "history ticker s e = Inr data" "data \<noteq> []"
  shows "get_stock_data history ticker name start_date end_date
    = stats_dict ticker name s e data"
  using assms stats_nonempty[OF assms(4), of ticker name s e]
  by (simp add: get_stock_data_def get_stock_data_try_def bind_exn_def)

lemma percentage_change_zero:
  "percentage_change closing 0 = inf_of_sign closing"
  by (simp add: percentage_change_def inf_of_sign_def)

lemma stats_dict_lookups:
  "map_of (stats_dict ticker name s e data) ''error'' = None"
  "map_of (stats_dict ticker name s e data) ''ticker'' = Some (PStr ticker)"
  "map_of (stats_dict ticker name s e data) ''name'' = Some (PStr name)"
  "map_of (stats_dict ticker name s e data) ''opening_price''
     = Some (PFloat (fround2 (Fin (Open (hd data)))))"
  "map_of (stats_dict ticker name s e data) ''closing_price''
     = Some (PFloat (fround2 (Fin (Close (last data)))))"
  "map_of (stats_dict ticker name s e data) ''highest_price''
     = Some (PFloat (fround2 (Fin (Max (set (map High data))))))"
  "map_of (stats_dict ticker name s e data) ''lowest_price''
     = Some (PFloat (fround2 (Fin (Min (set (map Low data))))))"
  "map_of (stats_dict ticker name s e data) ''average_price''
     = Some (PFloat (fround2 (col_mean (map (\<lambda>r. Fin (Close r)) data))))"
  "map_of (stats_dict ticker name s e data) ''price_change''
     = Some (PFloat (fround2 (fsub (Fin (Close (last data))) (Fin (Open (hd data))))))"
  "map_of (stats_dict ticker name s e data) ''percentage_change''
     = Some (PFloat (fround2 (percentage_change (Close (last data)) (Open (hd data)))))"
  "map_of (stats_dict ticker name s e data) ''average_volume''
     = Some (PInt (average_volume data))"
  by (simp_all add: stats_dict_def)


lemma fround2_eval:
  assumes "fmul v (Fin 100) = Fin z" and "rint z = k"
  shows "fround2 v = float64 (of_int k / 100)"
  using assms by (simp add: fround2_def)







lemma percentage_change_161_160:
  "fround2 (fmul (fsub (fdiv (Fin 161) (Fin 160)) (Fin 1)) (Fin 100)) = float64 (63 / 100)"
proof -
  have 1: "fdiv (Fin 161) (Fin 160) = Fin (2265873562520781 / 2251799813685248)"
    using f64_161_160 by simp
  have 2: "fsub (Fin (2265873562520781 / 2251799813685248)) (Fin 1)
      = Fin (14073748835533 / 2251799813685248)"
    using f64_161_160_minus_1 by simp
  have 3: "fmul (Fin (14073748835533 / 2251799813685248)) (Fin 100)
      = Fin (351843720888325 / 562949953421312)"
    using f64_161_160_percent by simp
  have 4: "fmul (Fin (351843720888325 / 562949953421312)) (Fin 100)
      = Fin (8796093022208125 / 140737488355328)"
    using f64_161_160_scaled by simp
  have 5: "rint (8796093022208125 / 140737488355328) = 63"
    by (simp add: float64_arith)
  show ?thesis unfolding 1 2 3 using fround2_eval[OF 4 5] by simp
qed



section \<open>Empty tables and a zero opening price\<close>

text \<open>
  Claim C6. When the fetch returns a table without rows, \<open>get_stock_data\<close> returns the
  dictionary with the no-data message under \<open>error\<close>, the ticker and the name, and
  \<open>plot_stock_price\<close> returns the no-data message; in both the body of the
  \<^verbatim>\<open>try\<close> returns normally, no exception is raised.
\<close>

theorem empty_series_no_data:
  assumes "parse_date start_date = Inr s" and "parse_date end_date = Inr e"
    and "history ticker s e = Inr []"
  shows "get_stock_data_try history ticker name start_date end_date
           = Inr [(''error'', PStr (no_data_message ticker)),
                  (''ticker'', PStr ticker), (''name'', PStr name)]
       \<and> get_stock_data history ticker name start_date end_date
           = [(''error'', PStr (no_data_message ticker)),
              (''ticker'', PStr ticker), (''name'', PStr name)]
       \<and> plot_stock_price_try history render ticker name start_date end_date
           = Inr (no_data_message ticker)
       \<and> plot_stock_price history render ticker name start_date end_date
           = no_data_message ticker"
  using assms
  by (simp add: get_stock_data_def get_stock_data_try_def plot_stock_price_def
      plot_stock_price_try_def bind_exn_def)

theorem empty_series_no_data_witness:
  "get_stock_data empty_history ''AAPL'' ''Apple'' ''01012024'' ''01312024''
     = [(''error'', PStr ''No data found for ticker AAPL in the specified date range''),
        (''ticker'', PStr ''AAPL''), (''name'', PStr ''Apple'')]
   \<and> plot_stock_price empty_history no_render ''AAPL'' ''Apple'' ''01012024'' ''01312024''
     = ''No data found for ticker AAPL in the specified date range''"
proof -
  have a: "parse_date ''01012024'' = Inr ''2024-01-01''" by code_simp
  have b: "parse_date ''01312024'' = Inr ''2024-01-31''" by code_simp
  have c: "empty_history ''AAPL'' ''2024-01-01'' ''2024-01-31'' = Inr []"
    by (simp add: empty_history_def)
  show ?thesis
    using empty_series_no_data [of "''01012024''" "''2024-01-01''" "''01312024''"
        "''2024-01-31''" empty_history "''AAPL''" "''Apple''" no_render, OF a b c]
    by (simp add: no_data_message_def)
qed

lemma inf_of_sign_not_finite: "\<not> is_finite (inf_of_sign x)"
  by (simp add: inf_of_sign_def)

text \<open>
  Claim C10. When the first open of a non-empty table is 0, nothing guards the division:
  the body returns normally, the result has no \<open>error\<close> entry, and its percentage
  change is the outcome of dividing by zero, an infinity or not-a-number.
\<close>

theorem zero_open_percentage_unguarded:
  assumes "parse_date start_date = Inr s" and "parse_date end_date = Inr e"
    and "history ticker s e = Inr data" and "data \<noteq> []" and "Open (hd data) = 0"
  shows "let result = get_stock_data history ticker name start_date end_date
         in get_stock_data_try history ticker name start_date end_date = Inr result
          \<and> map_of result ''error'' = None
          \<and> map_of result ''percentage_change''
              = Some (PFloat (fmul (fsub (fdiv (Fin (Close (last data))) (Fin 0)) (Fin 1)) (Fin 100)))
          \<and> map_of result ''percentage_change''
              = Some (PFloat (if Close (last data) = 0 then NaN
                              else if 0 < Close (last data) then PInf else NInf))
          \<and> (\<exists>v. map_of result ''percentage_change'' = Some (PFloat v) \<and> \<not> is_finite v)"
proof -
  note r = get_stock_data_nonempty[of start_date s end_date e history ticker data name,
      OF assms(1-4)]
  have t: "get_stock_data_try history ticker name start_date end_date
      = Inr (get_stock_data history ticker name start_date end_date)"
    unfolding r
    by (rule get_stock_data_try_nonempty[of start_date s end_date e history ticker data name,
          OF assms(1-4)])
  have p: "fround2 (percentage_change (Close (last data)) (Open (hd data)))
      = inf_of_sign (Close (last data))"
    by (simp add: assms(5) percentage_change_zero fround2_inf_of_sign)
  have q: "fmul (fsub (fdiv (Fin (Close (last data))) (Fin 0)) (Fin 1)) (Fin 100)
      = inf_of_sign (Close (last data))"
    using percentage_change_zero[of "Close (last data)"] by (simp add: percentage_change_def)
  have l: "map_of (stats_dict ticker name s e data) ''percentage_change''
      = Some (PFloat (inf_of_sign (Close (last data))))"
    by (simp add: stats_dict_lookups p)
  have i: "inf_of_sign (Close (last data))
      = (if Close (last data) = 0 then NaN else if 0 < Close (last data) then PInf else NInf)"
    by (simp add: inf_of_sign_def)
  have ex: "\<exists>v. map_of (stats_dict ticker name s e data) ''percentage_change''
      = Some (PFloat v) \<and> \<not> is_finite v"
    using l inf_of_sign_not_finite by blast
  show ?thesis
    unfolding Let_def t q unfolding r
    using l ex by (simp add: stats_dict_lookups i)
qed

theorem zero_open_percentage_unguarded_witness:
  "let result = get_stock_data zero_open_history ''ZERO'' ''Zero'' ''01012024'' ''01312024''
   in map_of result ''error'' = None
    \<and> map_of result ''percentage_change'' = Some (PFloat PInf)"
proof -
  have a: "parse_date ''01012024'' = Inr ''2024-01-01''" by code_simp
  have b: "parse_date ''01312024'' = Inr ''2024-01-31''" by code_simp
  have c: "zero_open_history ''ZERO'' ''2024-01-01'' ''2024-01-31'' = Inr zero_open_series"
    by (simp add: zero_open_history_def)
  have d: "zero_open_series \<noteq> []" by (simp add: zero_open_series_def)
  have z: "Open (hd zero_open_series) = 0" by (simp add: zero_open_series_def)
  show ?thesis
    using zero_open_percentage_unguarded [of "''01012024''" "''2024-01-01''" "''01312024''"
        "''2024-01-31''" zero_open_history "''ZERO''" zero_open_series "''Zero''", OF a b c d z]
    by (simp add: Let_def zero_open_series_def inf_of_sign_def)
qed

section \<open>Properties of the comparison\<close>

lemma get_stock_data_cases:
  obtains (failed) msg where
      "get_stock_data history ticker name start_date end_date
         = [(''error'', PStr msg), (''ticker'', PStr ticker), (''name'', PStr name)]"
  | (succeeded) s e data where
      "parse_date start_date = Inr s" "parse_date end_date = Inr e"
      "history ticker s e = Inr data" "data \<noteq> []"
      "get_stock_data history ticker name start_date end_date = stats_dict ticker name s e data"
proof (cases "parse_date start_date")
  case (Inl x)
  then show ?thesis
    by (intro failed) (simp add: get_stock_data_def get_stock_data_try_def bind_exn_def)
next
  case s: (Inr s)
  show ?thesis
  proof (cases "parse_date end_date")
    case (Inl x)
    with s show ?thesis
      by (intro failed) (simp add: get_stock_data_def get_stock_data_try_def bind_exn_def)
  next
    case e: (Inr e)
    show ?thesis
    proof (cases "history ticker s e")
      case (Inl x)
      with s e show ?thesis
        by (intro failed) (simp add: get_stock_data_def get_stock_data_try_def bind_exn_def)
    next
      case d: (Inr data)
      show ?thesis
      proof (cases "data = []")
        case True
        with s e d show ?thesis
          by (intro failed) (simp add: get_stock_data_def get_stock_data_try_def bind_exn_def)
      next
        case False
        show ?thesis
          using get_stock_data_nonempty[of start_date s end_date e history ticker data name,
              OF s e d False] s e d False
          by (intro succeeded) simp_all
      qed
    qed
  qed
qed

lemma has_key_error_failed:
  "has_key [(''error'', PStr msg), (''ticker'', PStr ticker), (''name'', PStr name)] ''error''"
  by (simp add: has_key_def)

lemma fgt_asym: "fgt b a \<Longrightarrow> \<not> fgt a b"
  by (cases a; cases b) simp_all

lemma fgt_irrefl: "\<not> fgt a a"
  by (cases a) simp_all

lemma determine_winner_floats:
  assumes "map_of d1 ''percentage_change'' = Some (PFloat p1)"
    and "map_of d2 ''percentage_change'' = Some (PFloat p2)"
  shows "determine_winner comparison t1 t2 d1 d2 =
     Inr (setitem (setitem comparison ''better_performer'' (PStr (if fgt p1 p2 then t1 else t2)))
            ''performance_difference'' (PFloat (fround2 (fabs (fsub p1 p2)))))"
  using assms fsub_of_greater[of p1 p2] fsub_of_not_greater[of p1 p2]
  by (simp add: determine_winner_def getitem_def bind_exn_def py_gt_def)

lemma leg_summary_stats:
  "\<exists>v. leg_summary t (stats_dict ticker name s e data) = Inr v"
  by (simp add: leg_summary_def getitem_def bind_exn_def stats_dict_lookups)

lemma compare_stocks_succeeded:
  assumes "get_stock_data history ticker1 ticker1 sd ed = stats_dict ticker1 ticker1 s e data1"
    and "get_stock_data history ticker2 ticker2 sd ed = stats_dict ticker2 ticker2 s e data2"
    and "parse_date sd = Inr s" and "parse_date ed = Inr e"
    and "p1 = fround2 (percentage_change (Close (last data1)) (Open (hd data1)))"
    and "p2 = fround2 (percentage_change (Close (last data2)) (Open (hd data2)))"
  shows "map_of (compare_stocks history ticker1 ticker2 sd ed) ''better_performer''
           = Some (PStr (if fgt p1 p2 then ticker1 else ticker2))"
    and "map_of (compare_stocks history ticker1 ticker2 sd ed) ''performance_difference''
           = Some (PFloat (fround2 (fabs (fsub p1 p2))))"
proof -
  obtain v1 where v1: "leg_summary ticker1 (stats_dict ticker1 ticker1 s e data1) = Inr v1"
    using leg_summary_stats by blast
  obtain v2 where v2: "leg_summary ticker2 (stats_dict ticker2 ticker2 s e data2) = Inr v2"
    using leg_summary_stats by blast
  have w: "determine_winner comparison ticker1 ticker2
        (stats_dict ticker1 ticker1 s e data1) (stats_dict ticker2 ticker2 s e data2)
      = Inr (setitem (setitem comparison ''better_performer''
               (PStr (if fgt p1 p2 then ticker1 else ticker2)))
             ''performance_difference'' (PFloat (fround2 (fabs (fsub p1 p2)))))"
    for comparison
    by (rule determine_winner_floats) (simp_all add: stats_dict_lookups assms(5,6))
  have c: "compare_stocks history ticker1 ticker2 sd ed
      = setitem (setitem [(''comparison_period'', PStr (s @ '' to '' @ e)),
                          (''stock1'', v1), (''stock2'', v2)]
                   ''better_performer'' (PStr (if fgt p1 p2 then ticker1 else ticker2)))
          ''performance_difference'' (PFloat (fround2 (fabs (fsub p1 p2))))"
    unfolding compare_stocks_def compare_stocks_try_def assms(1,2) Let_def
    by (simp add: has_key_def stats_dict_lookups assms(3,4) bind_exn_def v1 v2 w)
  show "map_of (compare_stocks history ticker1 ticker2 sd ed) ''better_performer''
           = Some (PStr (if fgt p1 p2 then ticker1 else ticker2))"
    unfolding c by simp
  show "map_of (compare_stocks history ticker1 ticker2 sd ed) ''performance_difference''
           = Some (PFloat (fround2 (fabs (fsub p1 p2))))"
    unfolding c by simp
qed

text \<open>
  Claim C4. When both legs succeed, with percentage changes \<open>p1\<close> and \<open>p2\<close>:
  the better performer is \<open>ticker1\<close> when \<open>p1\<close> is strictly greater, \<open>ticker2\<close> when
  \<open>p2\<close> is strictly greater and also when the two are equal; the performance difference
  is the absolute value of the float difference \<open>p1 - p2\<close>, rounded to two decimals:
  it holds the float nearest to a number with two decimals.
\<close>

theorem compare_stocks_winner:
  assumes "\<not> has_key (get_stock_data history ticker1 ticker1 sd ed) ''error''"
    and "\<not> has_key (get_stock_data history ticker2 ticker2 sd ed) ''error''"
  shows "\<exists>p1 p2.
      map_of (get_stock_data history ticker1 ticker1 sd ed) ''percentage_change''
        = Some (PFloat p1)
    \<and> map_of (get_stock_data history ticker2 ticker2 sd ed) ''percentage_change''
        = Some (PFloat p2)
    \<and> (fgt p1 p2 \<longrightarrow>
         map_of (compare_stocks history ticker1 ticker2 sd ed) ''better_performer''
           = Some (PStr ticker1))
    \<and> (fgt p2 p1 \<longrightarrow>
         map_of (compare_stocks history ticker1 ticker2 sd ed) ''better_performer''
           = Some (PStr ticker2))
    \<and> (p1 = p2 \<longrightarrow>
         map_of (compare_stocks history ticker1 ticker2 sd ed) ''better_performer''
           = Some (PStr ticker2))
    \<and> map_of (compare_stocks history ticker1 ticker2 sd ed) ''performance_difference''
        = Some (PFloat (fround2 (fabs (fsub p1 p2))))
    \<and> two_decimals (fround2 (fabs (fsub p1 p2)))"
proof -
  obtain s e data1 where l1: "parse_date sd = Inr s" "parse_date ed = Inr e"
    "get_stock_data history ticker1 ticker1 sd ed = stats_dict ticker1 ticker1 s e data1"
    using assms(1) has_key_error_failed
    by (cases rule: get_stock_data_cases[of history ticker1 ticker1 sd ed]) auto
  obtain s' e' data2 where l2: "parse_date sd = Inr s'" "parse_date ed = Inr e'"
    "get_stock_data history ticker2 ticker2 sd ed = stats_dict ticker2 ticker2 s' e' data2"
    using assms(2) has_key_error_failed
    by (cases rule: get_stock_data_cases[of history ticker2 ticker2 sd ed]) auto
  from l1 l2 have eq: "s' = s" "e' = e" by simp_all
  define p1 where "p1 = fround2 (percentage_change (Close (last data1)) (Open (hd data1)))"
  define p2 where "p2 = fround2 (percentage_change (Close (last data2)) (Open (hd data2)))"
  note w = compare_stocks_succeeded[OF l1(3) l2(3)[unfolded eq] l1(1,2) p1_def p2_def]
  have "map_of (get_stock_data history ticker1 ticker1 sd ed) ''percentage_change''
      = Some (PFloat p1)"
    by (simp add: l1(3) stats_dict_lookups p1_def)
  moreover have "map_of (get_stock_data history ticker2 ticker2 sd ed) ''percentage_change''
      = Some (PFloat p2)"
    by (simp add: l2(3) stats_dict_lookups p2_def)
  moreover have "fgt p1 p2 \<longrightarrow>
      map_of (compare_stocks history ticker1 ticker2 sd ed) ''better_performer''
        = Some (PStr ticker1)"
    by (simp add: w(1))
  moreover have "fgt p2 p1 \<longrightarrow>
      map_of (compare_stocks history ticker1 ticker2 sd ed) ''better_performer''
        = Some (PStr ticker2)"
    using fgt_asym[of p2 p1] by (simp add: w(1))
  moreover have "p1 = p2 \<longrightarrow>
      map_of (compare_stocks history ticker1 ticker2 sd ed) ''better_performer''
        = Some (PStr ticker2)"
    using fgt_irrefl[of p1] by (auto simp: w(1))
  ultimately show ?thesis using w(2) fround2_two_decimals by blast
qed

lemma get_stock_data_raises:
  assumes "get_stock_data_try history ticker name sd ed = Inl x"
  shows "get_stock_data history ticker name sd ed =
    [(''error'', PStr (''Failed to fetch data: '' @ str_exn x)),
     (''ticker'', PStr ticker), (''name'', PStr name)]"
  using assms by (simp add: get_stock_data_def)

lemma get_stock_data_try_history_raises:
  assumes "parse_date sd = Inr s" "parse_date ed = Inr e" "history ticker s e = Inl x"
  shows "get_stock_data_try history ticker name sd ed = Inl x"
  using assms by (simp add: get_stock_data_try_def bind_exn_def)

lemma get_stock_data_try_bad_date:
  assumes "parse_date sd = Inl w"
  shows "get_stock_data_try history ticker name sd ed = Inl w"
  using assms by (simp add: get_stock_data_try_def bind_exn_def)

lemma percentage_change_msft:
  "fround2 (percentage_change (20607 / 128) 160) = float64 (62 / 100)"
proof -
  have 1: "fdiv (Fin (20607 / 128)) (Fin 160) = Fin (2265763611358003 / 2251799813685248)"
    using f64_msft_ratio by simp
  have 2: "fsub (Fin (2265763611358003 / 2251799813685248)) (Fin 1)
      = Fin (13963797672755 / 2251799813685248)"
    using f64_msft_minus_1 by simp
  have 3: "fmul (Fin (13963797672755 / 2251799813685248)) (Fin 100)
      = Fin (349094941818875 / 562949953421312)"
    using f64_msft_percent by simp
  have 4: "fmul (Fin (349094941818875 / 562949953421312)) (Fin 100)
      = Fin (8727373545471875 / 140737488355328)"
    using f64_msft_scaled by simp
  have 5: "rint (8727373545471875 / 140737488355328) = 62"
    by (simp add: float64_arith)
  show ?thesis
    unfolding percentage_change_def 1 2 3 using fround2_eval[OF 4 5] by simp
qed

lemma performance_gap_example:
  "fround2 (Fin (45035996273705 / 4503599627370496)) = float64 (1 / 100)"
proof -
  have 4: "fmul (Fin (45035996273705 / 4503599627370496)) (Fin 100)
      = Fin (1125899906842625 / 1125899906842624)"
    using f64_gap_scaled by simp
  have 5: "rint (1125899906842625 / 1125899906842624) = 1"
    by (simp add: float64_arith)
  show ?thesis using fround2_eval[OF 4 5] by simp
qed

theorem compare_stocks_winner_witness:
  "map_of (compare_stocks two_ticker_history ''AAPL'' ''MSFT'' ''01012024'' ''01312024'')
     ''better_performer'' = Some (PStr ''AAPL'')
   \<and> map_of (compare_stocks two_ticker_history ''AAPL'' ''MSFT'' ''01012024'' ''01312024'')
     ''performance_difference'' = Some (PFloat (float64 (1 / 100)))
   \<and> fsub (float64 (63 / 100)) (float64 (62 / 100)) \<noteq> float64 (1 / 100)"
proof -
  have a: "parse_date ''01012024'' = Inr ''2024-01-01''" by code_simp
  have b: "parse_date ''01312024'' = Inr ''2024-01-31''" by code_simp
  have h1: "two_ticker_history ''AAPL'' ''2024-01-01'' ''2024-01-31''
      = Inr [\<lparr>Open = 160, High = 162, Low = 158, Close = 161, Volume = 500\<rparr>]"
    by (simp add: two_ticker_history_def)
  have h2: "two_ticker_history ''MSFT'' ''2024-01-01'' ''2024-01-31''
      = Inr [\<lparr>Open = 160, High = 162, Low = 158, Close = 20607 / 128, Volume = 700\<rparr>]"
    by (simp add: two_ticker_history_def)
  note g1 = get_stock_data_nonempty[of "''01012024''" "''2024-01-01''" "''01312024''"
      "''2024-01-31''" two_ticker_history "''AAPL''" _ "''AAPL''", OF a b h1]
  note g2 = get_stock_data_nonempty[of "''01012024''" "''2024-01-01''" "''01312024''"
      "''2024-01-31''" two_ticker_history "''MSFT''" _ "''MSFT''", OF a b h2]
  have e1: "\<not> has_key (get_stock_data two_ticker_history ''AAPL'' ''AAPL'' ''01012024''
      ''01312024'') ''error''"
    using g1 by (simp add: has_key_def stats_dict_lookups)
  have e2: "\<not> has_key (get_stock_data two_ticker_history ''MSFT'' ''MSFT'' ''01012024''
      ''01312024'') ''error''"
    using g2 by (simp add: has_key_def stats_dict_lookups)
  have p1: "map_of (get_stock_data two_ticker_history ''AAPL'' ''AAPL'' ''01012024''
      ''01312024'') ''percentage_change''
      = Some (PFloat (Fin (5674535530486825 / 9007199254740992)))"
    using g1 percentage_change_161_160 f64_63_100
    by (simp add: stats_dict_lookups percentage_change_def)
  have p2: "map_of (get_stock_data two_ticker_history ''MSFT'' ''MSFT'' ''01012024''
      ''01312024'') ''percentage_change''
      = Some (PFloat (Fin (5584463537939415 / 9007199254740992)))"
    using g2 percentage_change_msft f64_62_100
    by (simp add: stats_dict_lookups)
  have gap: "fsub (Fin (5674535530486825 / 9007199254740992))
      (Fin (5584463537939415 / 9007199254740992)) = Fin (45035996273705 / 4503599627370496)"
    using f64_gap by simp
  have raw: "fsub (float64 (63 / 100)) (float64 (62 / 100)) \<noteq> float64 (1 / 100)"
    unfolding f64_63_100 f64_62_100 gap f64_1_100 by simp
  from compare_stocks_winner [OF e1 e2] obtain q1 q2 where q:
    "map_of (get_stock_data two_ticker_history ''AAPL'' ''AAPL'' ''01012024'' ''01312024'')
       ''percentage_change'' = Some (PFloat q1)"
    "map_of (get_stock_data two_ticker_history ''MSFT'' ''MSFT'' ''01012024'' ''01312024'')
       ''percentage_change'' = Some (PFloat q2)"
    "fgt q1 q2 \<longrightarrow>
       map_of (compare_stocks two_ticker_history ''AAPL'' ''MSFT'' ''01012024'' ''01312024'')
         ''better_performer'' = Some (PStr ''AAPL'')"
    "map_of (compare_stocks two_ticker_history ''AAPL'' ''MSFT'' ''01012024'' ''01312024'')
       ''performance_difference'' = Some (PFloat (fround2 (fabs (fsub q1 q2))))"
    by blast
  from q(1) p1 have q1: "q1 = Fin (5674535530486825 / 9007199254740992)" by simp
  from q(2) p2 have q2: "q2 = Fin (5584463537939415 / 9007199254740992)" by simp
  have gt: "fgt q1 q2" unfolding q1 q2 by simp
  have "fround2 (fabs (fsub q1 q2)) = float64 (1 / 100)"
    unfolding q1 q2 gap using performance_gap_example by simp
  with q(3,4) gt raw show ?thesis by simp
qed

text \<open>
  Claim C5. When either leg has an \<open>error\<close> entry, \<open>compare_stocks\<close> returns exactly
  three entries, all of them strings: the combined error, and for each leg its error
  message, or \<^verbatim>\<open>No error\<close> for a leg that succeeded. No number of a succeeding leg is
  in the result.
\<close>

theorem compare_stocks_combined_error:
  assumes "has_key (get_stock_data history ticker1 ticker1 sd ed) ''error''
         \<or> has_key (get_stock_data history ticker2 ticker2 sd ed) ''error''"
  shows "\<exists>m1 m2.
      compare_stocks history ticker1 ticker2 sd ed
        = [(''error'', PStr ''Failed to get data for one or both stocks''),
           (''stock1_error'', PStr m1),
           (''stock2_error'', PStr m2)]
    \<and> (has_key (get_stock_data history ticker1 ticker1 sd ed) ''error'' \<longrightarrow>
         map_of (get_stock_data history ticker1 ticker1 sd ed) ''error'' = Some (PStr m1))
    \<and> (\<not> has_key (get_stock_data history ticker1 ticker1 sd ed) ''error'' \<longrightarrow>
         m1 = ''No error'')
    \<and> (has_key (get_stock_data history ticker2 ticker2 sd ed) ''error'' \<longrightarrow>
         map_of (get_stock_data history ticker2 ticker2 sd ed) ''error'' = Some (PStr m2))
    \<and> (\<not> has_key (get_stock_data history ticker2 ticker2 sd ed) ''error'' \<longrightarrow>
         m2 = ''No error'')"
proof -
  have leg: "\<exists>m. dict_get (get_stock_data history t t sd ed) ''error'' (PStr ''No error'') = PStr m
      \<and> (has_key (get_stock_data history t t sd ed) ''error'' \<longrightarrow>
           map_of (get_stock_data history t t sd ed) ''error'' = Some (PStr m))
      \<and> (\<not> has_key (get_stock_data history t t sd ed) ''error'' \<longrightarrow> m = ''No error'')"
    for t
    by (cases rule: get_stock_data_cases[of history t t sd ed])
      (simp_all add: dict_get_def has_key_def stats_dict_lookups)
  have c: "compare_stocks history ticker1 ticker2 sd ed
      = [(''error'', PStr ''Failed to get data for one or both stocks''),
         (''stock1_error'',
            dict_get (get_stock_data history ticker1 ticker1 sd ed) ''error'' (PStr ''No error'')),
         (''stock2_error'',
            dict_get (get_stock_data history ticker2 ticker2 sd ed) ''error'' (PStr ''No error''))]"
    using assms by (simp add: compare_stocks_def compare_stocks_try_def Let_def)
  from leg[of ticker1] leg[of ticker2] show ?thesis unfolding c by blast
qed

theorem compare_stocks_combined_error_witness:
  "compare_stocks failing_history ''AAPL'' ''MSFT'' ''01012024'' ''01312024''
     = [(''error'', PStr ''Failed to get data for one or both stocks''),
        (''stock1_error'', PStr ''Failed to fetch data: connection refused''),
        (''stock2_error'', PStr ''No error'')]"
proof -
  have a: "parse_date ''01012024'' = Inr ''2024-01-01''" by code_simp
  have b: "parse_date ''01312024'' = Inr ''2024-01-31''" by code_simp
  have h1: "failing_history ''AAPL'' ''2024-01-01'' ''2024-01-31''
      = Inl (OtherException ''connection refused'')"
    by (simp add: failing_history_def)
  have h2: "failing_history ''MSFT'' ''2024-01-01'' ''2024-01-31'' = Inr example_series"
    by (simp add: failing_history_def)
  have d: "example_series \<noteq> []" by (simp add: example_series_def)
  note t1 = get_stock_data_try_history_raises[of "''01012024''" "''2024-01-01''"
      "''01312024''" "''2024-01-31''" failing_history "''AAPL''" _ "''AAPL''", OF a b h1]
  note g1 = get_stock_data_raises[OF t1]
  note g2 = get_stock_data_nonempty[of "''01012024''" "''2024-01-01''" "''01312024''"
      "''2024-01-31''" failing_history "''MSFT''" example_series "''MSFT''", OF a b h2 d]
  have e1: "has_key (get_stock_data failing_history ''AAPL'' ''AAPL'' ''01012024''
      ''01312024'') ''error''"
    by (simp add: g1 has_key_def)
  have e2: "\<not> has_key (get_stock_data failing_history ''MSFT'' ''MSFT'' ''01012024''
      ''01312024'') ''error''"
    by (simp add: g2 has_key_def stats_dict_lookups)
  have m: "map_of (get_stock_data failing_history ''AAPL'' ''AAPL'' ''01012024''
      ''01312024'') ''error'' = Some (PStr ''Failed to fetch data: connection refused'')"
    by (simp add: g1)
  from compare_stocks_combined_error [of failing_history "''AAPL''" "''01012024''"
      "''01312024''" "''MSFT''"] e1 e2 m
  show ?thesis by auto
qed

section \<open>Properties of the chart\<close>

lemma length_b64_alphabet: "length b64_alphabet = 64"
  by (simp add: b64_alphabet_def)

lemma is_b64_char_b64_char: "n < 64 \<Longrightarrow> is_b64_char (b64_char n)"
  unfolding is_b64_char_def b64_char_def using length_b64_alphabet nth_mem[of n b64_alphabet] by simp

lemma unat_byte: "unat (a :: 8 word) < 256"
  using unsigned_less[of a, where 'a = nat] by simp

lemma sextets:
  fixes a b c :: "8 word"
  shows "unat a div 4 < 64" "unat a mod 4 * 16 < 64" "unat a mod 4 * 16 + unat b div 16 < 64"
    "unat b mod 16 * 4 < 64" "unat b mod 16 * 4 + unat c div 64 < 64" "unat c mod 64 < 64"
  using unat_byte[of a] unat_byte[of b] unat_byte[of c] by arith+

lemma valid_base64_group:
  assumes "is_b64_char a" "is_b64_char b" "is_b64_char c" "is_b64_char d" "valid_base64 rest"
  shows "valid_base64 (a # b # c # d # rest)"
  using assms by (cases rest) simp_all

lemma valid_base64_b64encode: "valid_base64 (b64encode bs)"
proof (induction bs rule: b64encode.induct)
  case 1
  show ?case by simp
next
  case (2 a)
  have "is_b64_char (b64_char (unat a div 4))" "is_b64_char (b64_char (unat a mod 4 * 16))"
    by (rule is_b64_char_b64_char, rule sextets)+
  then show ?case by simp
next
  case (3 a b)
  have "is_b64_char (b64_char (unat a div 4))"
    "is_b64_char (b64_char (unat a mod 4 * 16 + unat b div 16))"
    "is_b64_char (b64_char (unat b mod 16 * 4))"
    by (rule is_b64_char_b64_char, rule sextets)+
  then show ?case by simp
next
  case (4 a b c rest)
  have "is_b64_char (b64_char (unat a div 4))"
    "is_b64_char (b64_char (unat a mod 4 * 16 + unat b div 16))"
    "is_b64_char (b64_char (unat b mod 16 * 4 + unat c div 64))"
    "is_b64_char (b64_char (unat c mod 64))"
    by (rule is_b64_char_b64_char, rule sextets)+
  with 4 show ?case
    unfolding b64encode.simps append_Cons append_Nil by (intro valid_base64_group)
qed

lemma b64encode_png_signature: "b64encode png_signature = ''iVBORw0KGgo=''"
  unfolding png_signature_def by code_simp

lemma no_data_message_no_prefix: "\<not> startswith (no_data_message ticker) data_uri_prefix"
  by (simp add: startswith_def no_data_message_def data_uri_prefix_def)

lemma failure_message_no_prefix:
  "\<not> startswith (''Failed to create plot: '' @ m) data_uri_prefix"
  by (simp add: startswith_def data_uri_prefix_def)

text \<open>
  Claim C8, amended. For a non-empty table on which the plotting collaborator returns the
  image bytes, the string that \<open>plot_stock_price\<close> returns is the prefix
  \<^verbatim>\<open>data:image/png;base64,\<close> followed by valid base64; for an empty table the
  returned text does not start with that prefix.
\<close>

theorem plot_stock_price_data_uri:
  assumes "parse_date start_date = Inr s" and "parse_date end_date = Inr e"
    and "history ticker s e = Inr data" and "data \<noteq> []"
    and "render ticker name s e data = Inr png"
    and "history' ticker s e = Inr []"
  shows "plot_stock_price history render ticker name start_date end_date
           = data_uri_prefix @ b64encode png
       \<and> startswith (plot_stock_price history render ticker name start_date end_date)
           data_uri_prefix
       \<and> valid_base64 (drop (length data_uri_prefix)
           (plot_stock_price history render ticker name start_date end_date))
       \<and> \<not> startswith (plot_stock_price history' render' ticker name start_date end_date)
           data_uri_prefix"
proof -
  have p: "plot_stock_price history render ticker name start_date end_date
      = data_uri_prefix @ b64encode png"
    using assms(1-5) by (simp add: plot_stock_price_def plot_stock_price_try_def bind_exn_def)
  have q: "plot_stock_price history' render' ticker name start_date end_date
      = no_data_message ticker"
    using assms(1,2,6) by (simp add: plot_stock_price_def plot_stock_price_try_def bind_exn_def)
  show ?thesis
    unfolding p q by (simp add: startswith_def valid_base64_b64encode no_data_message_no_prefix[unfolded startswith_def])
qed

theorem plot_stock_price_data_uri_witness:
  "plot_stock_price example_history signature_render ''AAPL'' ''Apple'' ''01012024'' ''01312024''
     = ''data:image/png;base64,iVBORw0KGgo=''
   \<and> valid_base64 ''iVBORw0KGgo=''
   \<and> \<not> startswith
         (plot_stock_price empty_history signature_render ''AAPL'' ''Apple'' ''01012024'' ''01312024'')
         ''data:image/png;base64,''"
proof -
  have a: "parse_date ''01012024'' = Inr ''2024-01-01''" by code_simp
  have b: "parse_date ''01312024'' = Inr ''2024-01-31''" by code_simp
  have c: "example_history ''AAPL'' ''2024-01-01'' ''2024-01-31'' = Inr example_series"
    by (simp add: example_history_def)
  have d: "example_series \<noteq> []" by (simp add: example_series_def)
  have r: "signature_render ''AAPL'' ''Apple'' ''2024-01-01'' ''2024-01-31'' example_series
      = Inr png_signature"
    by (simp add: signature_render_def)
  have h: "empty_history ''AAPL'' ''2024-01-01'' ''2024-01-31'' = Inr []"
    by (simp add: empty_history_def)
  note w = plot_stock_price_data_uri [of "''01012024''" "''2024-01-01''" "''01312024''"
      "''2024-01-31''" example_history "''AAPL''" example_series signature_render
      "''Apple''" png_signature empty_history signature_render, OF a b c d r h]
  from w have p: "plot_stock_price example_history signature_render ''AAPL'' ''Apple''
      ''01012024'' ''01312024'' = data_uri_prefix @ b64encode png_signature"
    by (rule conjunct1)
  from w have "valid_base64 (drop (length data_uri_prefix)
      (plot_stock_price example_history signature_render ''AAPL'' ''Apple''
        ''01012024'' ''01312024''))"
    by blast
  then have v: "valid_base64 ''iVBORw0KGgo=''"
    unfolding p by (simp add: b64encode_png_signature)
  from w have n: "\<not> startswith
      (plot_stock_price empty_history signature_render ''AAPL'' ''Apple'' ''01012024'' ''01312024'')
      data_uri_prefix"
    by blast
  have q: "data_uri_prefix @ b64encode png_signature = ''data:image/png;base64,iVBORw0KGgo=''"
    by (simp add: b64encode_png_signature data_uri_prefix_def)
  show ?thesis
    using p v n unfolding q by (simp add: data_uri_prefix_def)
qed

text \<open>
  Claim C8 as stated fails when the plotting collaborator raises on a non-empty table:
  the handler returns the failure text, which does not start with the prefix.
\<close>

theorem plot_stock_price_render_fails_counterexample:
  "parse_date ''01012024'' = Inr ''2024-01-01''
   \<and> parse_date ''01312024'' = Inr ''2024-01-31''
   \<and> example_history ''AAPL'' ''2024-01-01'' ''2024-01-31'' = Inr example_series
   \<and> example_series \<noteq> []
   \<and> plot_stock_price example_history no_render ''AAPL'' ''Apple'' ''01012024'' ''01312024''
       = ''Failed to create plot: no display''
   \<and> \<not> startswith
         (plot_stock_price example_history no_render ''AAPL'' ''Apple'' ''01012024'' ''01312024'')
         data_uri_prefix"
proof -
  have a: "parse_date ''01012024'' = Inr ''2024-01-01''" by code_simp
  have b: "parse_date ''01312024'' = Inr ''2024-01-31''" by code_simp
  have c: "example_history ''AAPL'' ''2024-01-01'' ''2024-01-31'' = Inr example_series"
    by (simp add: example_history_def)
  have d: "example_series \<noteq> []" by (simp add: example_series_def)
  have p: "plot_stock_price example_history no_render ''AAPL'' ''Apple'' ''01012024'' ''01312024''
       = ''Failed to create plot: no display''"
    using a b c d
    by (simp add: plot_stock_price_def plot_stock_price_try_def bind_exn_def no_render_def)
  show ?thesis
    unfolding p using a b c d by (simp add: startswith_def data_uri_prefix_def)
qed

section \<open>Properties of the resource reader\<close>

text \<open>
  Claim C9 at a snapshot without market cap: the placeholder \<^verbatim>\<open>N/A\<close> is a string,
  formatting it with the thousands separator raises, and the reader returns the error
  text instead of the block.
\<close>

theorem read_stock_resource_missing_market_cap:
  "read_stock_resource info_without_market_cap repr_float group_float ''AAPL''
     = ''Error fetching stock resource: Cannot specify '' @ apostrophe @ '','' @ apostrophe
       @ '' with '' @ apostrophe @ ''s'' @ apostrophe @ ''.''"
  by (simp add: read_stock_resource_def read_stock_resource_try_def bind_exn_def
      info_without_market_cap_def snapshot_without_market_cap_def info_get_def
      grouping_error_message_def)

lemma group_int_example: "group_int 2950000000000 = ''2,950,000,000,000''"
  by (simp add: group_int_def digit_char_def str_nat.simps)

lemma str_int_examples: "str_int 190 = ''190''" "str_int 200 = ''200''" "str_int 120 = ''120''"
  by (simp_all add: str_int_def digit_char_def str_nat.simps)

text \<open>The sibling fields do get the placeholder: a snapshot without the sector.\<close>

lemma read_stock_resource_missing_sector:
  "read_stock_resource info_without_sector repr_float group_float ''AAPL''
     = newline @ ''Stock Information for AAPL:'' @ newline
       @ ''Company Name: Apple Inc.'' @ newline
       @ ''Sector: N/A'' @ newline
       @ ''Industry: Consumer Electronics'' @ newline
       @ ''Current Price: $190'' @ newline
       @ ''Market Cap: $2,950,000,000,000'' @ newline
       @ ''52 Week High: $200'' @ newline
       @ ''52 Week Low: $120'' @ newline
       @ ''        ''"
  by (simp add: read_stock_resource_def read_stock_resource_try_def bind_exn_def
      info_without_sector_def snapshot_without_sector_def info_get_def
      group_int_example str_int_examples)

section \<open>Failures become values\<close>

lemma compare_stocks_has_verdict:
  "has_key (compare_stocks history ticker1 ticker2 sd ed) ''error''
   \<or> has_key (compare_stocks history ticker1 ticker2 sd ed) ''better_performer''"
proof (cases "has_key (get_stock_data history ticker1 ticker1 sd ed) ''error''
         \<or> has_key (get_stock_data history ticker2 ticker2 sd ed) ''error''")
  case True
  then show ?thesis
    by (simp add: compare_stocks_def compare_stocks_try_def Let_def has_key_def)
next
  case False
  then obtain s e data1 where l1: "parse_date sd = Inr s" "parse_date ed = Inr e"
    "get_stock_data history ticker1 ticker1 sd ed = stats_dict ticker1 ticker1 s e data1"
    using has_key_error_failed
    by (cases rule: get_stock_data_cases[of history ticker1 ticker1 sd ed]) auto
  from False obtain s' e' data2 where l2: "parse_date sd = Inr s'" "parse_date ed = Inr e'"
    "get_stock_data history ticker2 ticker2 sd ed = stats_dict ticker2 ticker2 s' e' data2"
    using has_key_error_failed
    by (cases rule: get_stock_data_cases[of history ticker2 ticker2 sd ed]) auto
  from l1 l2 have eq: "s' = s" "e' = e" by simp_all
  from compare_stocks_succeeded(1)[OF l1(3) l2(3)[unfolded eq] l1(1,2) refl refl]
  show ?thesis by (simp add: has_key_def)
qed

lemma get_stock_data_has_outcome:
  "has_key (get_stock_data history ticker name sd ed) ''error''
   \<or> has_key (get_stock_data history ticker name sd ed) ''percentage_change''"
  by (cases rule: get_stock_data_cases[of history ticker name sd ed])
    (simp_all add: has_key_def stats_dict_lookups)

text \<open>
  Claim C7. Whatever raises inside a tool becomes its returned value: when the data
  collaborator raises, when the plotting collaborator raises, when the snapshot service
  raises and when a date is rejected, \<open>get_stock_data\<close> and \<open>compare_stocks\<close> return a
  dictionary with an \<open>error\<close> entry, \<open>plot_stock_price\<close> and
  \<open>read_stock_resource\<close> return a text that describes the failure. On every input the
  dictionaries returned carry either an \<open>error\<close> entry or the computed fields.
\<close>

theorem tools_degrade_to_error_values:
  assumes "parse_date sd = Inr s" and "parse_date ed = Inr e"
    and "history t s e = Inl x"
    and "history' t s e = Inr data" and "data \<noteq> []" and "render t n s e data = Inl y"
    and "info_of t = Inl z"
    and "parse_date bad = Inl w"
  shows "get_stock_data history t n sd ed
           = [(''error'', PStr (''Failed to fetch data: '' @ str_exn x)),
              (''ticker'', PStr t), (''name'', PStr n)]
       \<and> get_stock_data history'' t n bad ed
           = [(''error'', PStr (''Failed to fetch data: '' @ str_exn w)),
              (''ticker'', PStr t), (''name'', PStr n)]
       \<and> plot_stock_price history render' t n sd ed = ''Failed to create plot: '' @ str_exn x
       \<and> plot_stock_price history' render t n sd ed = ''Failed to create plot: '' @ str_exn y
       \<and> plot_stock_price history'' render' t n bad ed = ''Failed to create plot: '' @ str_exn w
       \<and> compare_stocks history t t2 sd ed
           = [(''error'', PStr ''Failed to get data for one or both stocks''),
              (''stock1_error'', PStr (''Failed to fetch data: '' @ str_exn x)),
              (''stock2_error'',
                 dict_get (get_stock_data history t2 t2 sd ed) ''error'' (PStr ''No error''))]
       \<and> compare_stocks history'' t t2 bad ed
           = [(''error'', PStr ''Failed to get data for one or both stocks''),
              (''stock1_error'', PStr (''Failed to fetch data: '' @ str_exn w)),
              (''stock2_error'', PStr (''Failed to fetch data: '' @ str_exn w))]
       \<and> read_stock_resource info_of repr_float group_float t
           = ''Error fetching stock resource: '' @ str_exn z
       \<and> (has_key (get_stock_data h0 t0 n0 sd0 ed0) ''error''
            \<or> has_key (get_stock_data h0 t0 n0 sd0 ed0) ''percentage_change'')
       \<and> (has_key (compare_stocks h0 t0 t1 sd0 ed0) ''error''
            \<or> has_key (compare_stocks h0 t0 t1 sd0 ed0) ''better_performer'')"
proof -
  have g: "get_stock_data history t k sd ed
      = [(''error'', PStr (''Failed to fetch data: '' @ str_exn x)),
         (''ticker'', PStr t), (''name'', PStr k)]" for k
    using assms(1-3) by (simp add: get_stock_data_def get_stock_data_try_def bind_exn_def)
  have gb: "get_stock_data history'' u k bad ed
      = [(''error'', PStr (''Failed to fetch data: '' @ str_exn w)),
         (''ticker'', PStr u), (''name'', PStr k)]" for u k
    using assms(8) by (simp add: get_stock_data_def get_stock_data_try_def bind_exn_def)
  have p1: "plot_stock_price history render' t n sd ed = ''Failed to create plot: '' @ str_exn x"
    using assms(1-3) by (simp add: plot_stock_price_def plot_stock_price_try_def bind_exn_def)
  have p2: "plot_stock_price history' render t n sd ed = ''Failed to create plot: '' @ str_exn y"
    using assms(1,2,4-6)
    by (simp add: plot_stock_price_def plot_stock_price_try_def bind_exn_def)
  have p3: "plot_stock_price history'' render' t n bad ed
      = ''Failed to create plot: '' @ str_exn w"
    using assms(8) by (simp add: plot_stock_price_def plot_stock_price_try_def bind_exn_def)
  have c1: "compare_stocks history t t2 sd ed
      = [(''error'', PStr ''Failed to get data for one or both stocks''),
         (''stock1_error'', PStr (''Failed to fetch data: '' @ str_exn x)),
         (''stock2_error'',
            dict_get (get_stock_data history t2 t2 sd ed) ''error'' (PStr ''No error''))]"
    by (simp add: compare_stocks_def compare_stocks_try_def Let_def g has_key_def dict_get_def)
  have c2: "compare_stocks history'' t t2 bad ed
      = [(''error'', PStr ''Failed to get data for one or both stocks''),
         (''stock1_error'', PStr (''Failed to fetch data: '' @ str_exn w)),
         (''stock2_error'', PStr (''Failed to fetch data: '' @ str_exn w))]"
    by (simp add: compare_stocks_def compare_stocks_try_def Let_def gb has_key_def dict_get_def)
  have r: "read_stock_resource info_of repr_float group_float t
      = ''Error fetching stock resource: '' @ str_exn z"
    using assms(7)
    by (simp add: read_stock_resource_def read_stock_resource_try_def bind_exn_def)
  show ?thesis
    using g[of n] gb[of t n] p1 p2 p3 c1 c2 r
      get_stock_data_has_outcome[of h0 t0 n0 sd0 ed0]
      compare_stocks_has_verdict[of h0 t0 t1 sd0 ed0]
    by (intro conjI)
qed

theorem tools_degrade_to_error_values_witness:
  "get_stock_data failing_history ''AAPL'' ''Apple'' ''01012024'' ''01312024''
     = [(''error'', PStr ''Failed to fetch data: connection refused''),
        (''ticker'', PStr ''AAPL''), (''name'', PStr ''Apple'')]
   \<and> get_stock_data example_history ''AAPL'' ''Apple'' ''13012024'' ''01312024''
     = [(''error'', PStr
          ''Failed to fetch data: Invalid date format: 13012024. Expected mmddyyyy format.''),
        (''ticker'', PStr ''AAPL''), (''name'', PStr ''Apple'')]
   \<and> plot_stock_price example_history no_render ''AAPL'' ''Apple'' ''01012024'' ''01312024''
     = ''Failed to create plot: no display''
   \<and> read_stock_resource failing_info (\<lambda>x. []) (\<lambda>x. []) ''AAPL''
     = ''Error fetching stock resource: quote service unavailable''"
proof -
  have a: "parse_date ''01012024'' = Inr ''2024-01-01''" by code_simp
  have b: "parse_date ''01312024'' = Inr ''2024-01-31''" by code_simp
  have h: "failing_history ''AAPL'' ''2024-01-01'' ''2024-01-31''
      = Inl (OtherException ''connection refused'')"
    by (simp add: failing_history_def)
  have c: "example_history ''AAPL'' ''2024-01-01'' ''2024-01-31'' = Inr example_series"
    by (simp add: example_history_def)
  have d: "example_series \<noteq> []" by (simp add: example_series_def)
  have r: "no_render ''AAPL'' ''Apple'' ''2024-01-01'' ''2024-01-31'' example_series
      = Inl (OtherException ''no display'')"
    by (simp add: no_render_def)
  have i: "failing_info ''AAPL'' = Inl (OtherException ''quote service unavailable'')"
    by (simp add: failing_info_def)
  have w: "parse_date ''13012024''
      = Inl (ValueError ''Invalid date format: 13012024. Expected mmddyyyy format.'')"
    by code_simp
  note t = tools_degrade_to_error_values [of "''01012024''" "''2024-01-01''" "''01312024''"
      "''2024-01-31''" failing_history "''AAPL''" _ example_history example_series no_render
      "''Apple''" _ failing_info _ "''13012024''" _ example_history,
      OF a b h c d r i w]
  show ?thesis
    using t[of no_render "''MSFT''" "\<lambda>x. []" "\<lambda>x. []"] by simp
qed

end
